theory Spec2Isabelle
  imports Main
begin

section \<open>JavaScript strings\<close>

text \<open>
  A JavaScript string is a sequence of UTF-16 code units; \<open>length\<close>, \<open>substring\<close>,
  \<open>match.index\<close> and the regular expressions without the \<open>u\<close> flag all count and read
  code units.  A string is therefore a list of code units, each a natural number.
  \<open>js\<close> embeds an ASCII literal.
\<close>

type_synonym jstring = "nat list"

definition js :: "string \<Rightarrow> jstring" where
  "js s = map of_char s"

text \<open>
  The code units matched by \<open>\s\<close> and stripped by \<open>trim\<close>: the WhiteSpace and
  LineTerminator productions of ECMAScript (TAB, LF, VT, FF, CR, SP, NBSP, U+1680,
  U+2000..U+200A, U+2028, U+2029, U+202F, U+205F, U+3000, U+FEFF), as inclusive ranges.
\<close>

definition ws :: "(nat \<times> nat) list" where
  "ws = [(9, 13), (32, 32), (160, 160), (5760, 5760), (8192, 8202), (8232, 8233),
         (8239, 8239), (8287, 8287), (12288, 12288), (65279, 65279)]"

definition in_ranges :: "(nat \<times> nat) list \<Rightarrow> nat \<Rightarrow> bool" where
  "in_ranges rs c = list_ex (\<lambda>(lo, hi). lo \<le> c \<and> c \<le> hi) rs"

definition isspace :: "nat \<Rightarrow> bool" where
  "isspace c = in_ranges ws c"

text \<open>
  \<open>toUpperCase\<close> and \<open>toLowerCase\<close> are modelled on the ASCII letters; every other code
  unit is left as it is.  The strings the parser compares after a case conversion (category
  keywords, the quantity words, the category alias table) are all ASCII.
\<close>

definition upper :: "nat \<Rightarrow> nat" where
  "upper c = (if 97 \<le> c \<and> c \<le> 122 then c - 32 else c)"

definition lower :: "nat \<Rightarrow> nat" where
  "lower c = (if 65 \<le> c \<and> c \<le> 90 then c + 32 else c)"

definition toUpperCase :: "jstring \<Rightarrow> jstring" where
  "toUpperCase s = map upper s"

definition toLowerCase :: "jstring \<Rightarrow> jstring" where
  "toLowerCase s = map lower s"

definition trim :: "jstring \<Rightarrow> jstring" where
  "trim s = rev (dropWhile isspace (rev (dropWhile isspace s)))"

text \<open>\<open>s.includes(t)\<close>: \<open>t\<close> occurs in \<open>s\<close> as a contiguous substring.\<close>

fun includes_str :: "jstring \<Rightarrow> jstring \<Rightarrow> bool" where
  "includes_str [] t = (t = [])"
| "includes_str (c # s) t = (take (length t) (c # s) = t \<or> includes_str s t)"

text \<open>
  \<open>s.substring(a, b)\<close> for \<open>a \<le> b\<close>, both already non-negative: the indices are clamped
  to the length of \<open>s\<close>.  Every call in the parser has \<open>a \<le> b\<close>.
\<close>

definition substring :: "jstring \<Rightarrow> nat \<Rightarrow> nat \<Rightarrow> jstring" where
  "substring s a b = take (b - a) (drop a s)"

text \<open>\<open>s.split('\n')\<close>: the pieces between line feeds; never the empty array.\<close>

fun split_lines :: "jstring \<Rightarrow> jstring list" where
  "split_lines [] = [[]]"
| "split_lines (c # s) =
     (if c = 10 then [] # split_lines s
      else (case split_lines s of
              [] \<Rightarrow> [[c]]
            | l # ls \<Rightarrow> (c # l) # ls))"

section \<open>Regular expressions\<close>

text \<open>
  The fragment of ECMAScript regular expressions that the pattern registry uses: character
  classes (possibly negated), sequence, ordered alternation, greedy and lazy bounded
  repetition, capture groups and the anchors \<open>^\<close> and \<open>$\<close> (no pattern has the \<open>m\<close>
  flag, so they mean the start and the end of the input).
\<close>

datatype regex =
    Cls bool "(nat \<times> nat) list"
  | Eps
  | Seq regex regex
  | Alt regex regex
  | Rep nat "nat option" bool regex
  | Grp nat regex
  | Bol
  | Eol

text \<open>
  A class \<open>Cls neg rs\<close> holds the code units of the ranges \<open>rs\<close>, negated when \<open>neg\<close>.
  With the \<open>i\<close> flag a code unit matches when its canonical form is that of a member of
  the class.  Every cased member of a class or literal of the registry is an ASCII letter,
  and ECMAScript's Canonicalize never maps a code unit from 128 up to one below 128, so
  the comparison is on the ASCII case variants of the code unit.
\<close>

definition cls_member :: "bool \<Rightarrow> (nat \<times> nat) list \<Rightarrow> nat \<Rightarrow> bool" where
  "cls_member ic rs c =
     (if ic then in_ranges rs c \<or> in_ranges rs (upper c) \<or> in_ranges rs (lower c)
      else in_ranges rs c)"

type_synonym caps = "jstring option list"

text \<open>
  A matcher state: the position, the input from that position on, and the captures.
  A matcher gives the states in which a match of the expression can end, in the order in
  which ECMAScript's backtracking matcher tries them; the first one that the rest of the
  pattern accepts is the one the backtracking search finds.
\<close>

type_synonym mstate = "nat \<times> jstring \<times> caps"
type_synonym matcher = "nat \<Rightarrow> jstring \<Rightarrow> caps \<Rightarrow> mstate list"

primrec capture_groups :: "regex \<Rightarrow> nat list" where
  "capture_groups (Cls neg rs) = []"
| "capture_groups Eps = []"
| "capture_groups (Seq a b) = capture_groups a @ capture_groups b"
| "capture_groups (Alt a b) = capture_groups a @ capture_groups b"
| "capture_groups (Rep mn mx g a) = capture_groups a"
| "capture_groups (Grp i a) = i # capture_groups a"
| "capture_groups Bol = []"
| "capture_groups Eol = []"

definition clear_caps :: "nat list \<Rightarrow> caps \<Rightarrow> caps" where
  "clear_caps gs cs = foldr (\<lambda>i c. c[i := None]) gs cs"

text \<open>
  ECMAScript's RepeatMatcher: the captures of the repeated expression are reset before
  each iteration; once the minimum is reached an iteration that consumes nothing is
  rejected; a greedy repetition tries one more iteration before stopping, a lazy one
  stops before trying.  A matcher only moves forward, so "consumes nothing" is "leaves
  no less input"; written that way the recursion is well-founded for every matcher \<open>m\<close>.
\<close>

function repeatMatcher ::
  "matcher \<Rightarrow> nat \<Rightarrow> nat option \<Rightarrow> bool \<Rightarrow> nat list \<Rightarrow> matcher" where
  "repeatMatcher m mn mx greedy gs p s cs =
     (if mx = Some 0 then [(p, s, cs)]
      else if mn \<noteq> 0 then
        concat (map (\<lambda>(p', s', cs').
                  repeatMatcher m (mn - 1) (map_option (\<lambda>k. k - 1) mx) greedy gs p' s' cs')
               (m p s (clear_caps gs cs)))
      else if greedy then
        concat (map (\<lambda>(p', s', cs').
                  if length s' < length s
                  then repeatMatcher m 0 (map_option (\<lambda>k. k - 1) mx) greedy gs p' s' cs'
                  else [])
               (m p s (clear_caps gs cs)))
        @ [(p, s, cs)]
      else
        (p, s, cs) #
        concat (map (\<lambda>(p', s', cs').
                  if length s' < length s
                  then repeatMatcher m 0 (map_option (\<lambda>k. k - 1) mx) greedy gs p' s' cs'
                  else [])
               (m p s (clear_caps gs cs))))"
  by pat_completeness auto
termination
  by (relation "measures [\<lambda>(m, mn, mx, greedy, gs, p, s, cs). mn,
                          \<lambda>(m, mn, mx, greedy, gs, p, s, cs). length s]") auto

declare repeatMatcher.simps [simp del]

primrec rx :: "bool \<Rightarrow> regex \<Rightarrow> matcher" where
  "rx ic (Cls neg rs) p s cs =
     (case s of
        [] \<Rightarrow> []
      | ch # s' \<Rightarrow> if cls_member ic rs ch \<noteq> neg then [(Suc p, s', cs)] else [])"
| "rx ic Eps p s cs = [(p, s, cs)]"
| "rx ic (Seq a b) p s cs =
     concat (map (\<lambda>(p', s', cs'). rx ic b p' s' cs') (rx ic a p s cs))"
| "rx ic (Alt a b) p s cs = rx ic a p s cs @ rx ic b p s cs"
| "rx ic (Rep mn mx greedy a) p s cs =
     repeatMatcher (rx ic a) mn mx greedy (capture_groups a) p s cs"
| "rx ic (Grp i a) p s cs =
     map (\<lambda>(p', s', cs'). (p', s', cs'[i := Some (take (p' - p) s)])) (rx ic a p s cs)"
| "rx ic Bol p s cs = (if p = 0 then [(p, s, cs)] else [])"
| "rx ic Eol p s cs = (if s = [] then [(p, s, cs)] else [])"

text \<open>
  A matcher is forward when every state it gives lies at or after the state it was given,
  on the same input.
\<close>

definition forward :: "matcher \<Rightarrow> bool" where
  "forward m =
     (\<forall>p s cs. \<forall>(p', s', cs') \<in> set (m p s cs).
        p \<le> p' \<and> p' \<le> p + length s \<and> s' = drop (p' - p) s)"

text \<open>A regular expression object: its source, and the flags \<open>g\<close> and \<open>i\<close>.\<close>

record pattern =
  source :: regex
  global :: bool
  ignoreCase :: bool

text \<open>
  One match: \<open>index\<close>, the matched text \<open>match[0]\<close>, and the captures, \<open>caps ! k\<close> for
  group \<open>k\<close> (\<open>None\<close> is \<open>undefined\<close>: the group took no part in the match).
\<close>

record rmatch =
  index :: nat
  matched :: jstring
  caps :: caps

definition match_at :: "pattern \<Rightarrow> nat \<Rightarrow> jstring \<Rightarrow> rmatch option" where
  "match_at pt p s =
     (case rx (ignoreCase pt) (source pt) p s
             (replicate (Suc (length (capture_groups (source pt)))) None) of
        [] \<Rightarrow> None
      | (e, s', cs) # _ \<Rightarrow> Some \<lparr>index = p, matched = take (e - p) s, caps = cs\<rparr>)"

text \<open>\<open>match[k]\<close>.\<close>

definition grp :: "rmatch \<Rightarrow> nat \<Rightarrow> jstring option" where
  "grp m k = (if k = 0 then Some (matched m)
              else if k < length (caps m) then caps m ! k else None)"

text \<open>RegExpBuiltinExec from position \<open>p\<close>: the first position at which the pattern matches.\<close>

fun exec_from :: "pattern \<Rightarrow> nat \<Rightarrow> jstring \<Rightarrow> rmatch option" where
  "exec_from pt p [] = match_at pt p []"
| "exec_from pt p (ch # s) =
     (case match_at pt p (ch # s) of
        Some m \<Rightarrow> Some m
      | None \<Rightarrow> exec_from pt (Suc p) s)"

text \<open>
  The successive matches of a global pattern, as \<open>matchAll\<close>, \<open>match\<close> and \<open>replace\<close>
  enumerate them: after a match the search resumes at its end, one code unit further
  when the match was empty.
\<close>

function all_from :: "pattern \<Rightarrow> nat \<Rightarrow> jstring \<Rightarrow> rmatch list" where
  "all_from pt p [] = (case match_at pt p [] of None \<Rightarrow> [] | Some m \<Rightarrow> [m])"
| "all_from pt p (ch # s) =
     (case match_at pt p (ch # s) of
        None \<Rightarrow> all_from pt (Suc p) s
      | Some m \<Rightarrow>
          m # (if matched m = [] then all_from pt (Suc p) s
               else all_from pt (p + length (matched m)) (drop (length (matched m)) (ch # s))))"
  by pat_completeness auto
termination
  by (relation "measure (\<lambda>(pt, p, s). length s)") auto

datatype error = TypeError

text \<open>
  \<open>String.prototype.matchAll\<close> throws a TypeError when the regular expression does not
  have the \<open>g\<close> flag.
\<close>

definition matchAll :: "pattern \<Rightarrow> jstring \<Rightarrow> error + rmatch list" where
  "matchAll pt s = (if global pt then Inr (all_from pt 0 s) else Inl TypeError)"

text \<open>
  \<open>String.prototype.match\<close>: \<open>null\<close> (\<open>None\<close>) when nothing matches; with the \<open>g\<close> flag the
  array of all matched texts, without it the array of the first match, \<open>[match[0],
  match[1], ...]\<close>.  \<open>at\<close> reads an array element, \<open>undefined\<close> out of range.
\<close>

definition str_match :: "pattern \<Rightarrow> jstring \<Rightarrow> jstring option list option" where
  "str_match pt s =
     (if global pt then
        (case all_from pt 0 s of
           [] \<Rightarrow> None
         | m # ms \<Rightarrow> Some (map (\<lambda>x. Some (matched x)) (m # ms)))
      else
        (case exec_from pt 0 s of
           None \<Rightarrow> None
         | Some m \<Rightarrow> Some (Some (matched m) # tl (caps m))))"

definition at :: "'a option list \<Rightarrow> nat \<Rightarrow> 'a option" where
  "at xs k = (if k < length xs then xs ! k else None)"

text \<open>\<open>RegExp.prototype.test\<close> of a pattern without the \<open>g\<close> flag (no \<open>lastIndex\<close> state).\<close>

definition re_test :: "pattern \<Rightarrow> jstring \<Rightarrow> bool" where
  "re_test pt s = (exec_from pt 0 s \<noteq> None)"

text \<open>
  \<open>String.prototype.replace\<close> with a replacement text free of \<open>$\<close>: every match of a
  global pattern is replaced, only the first one of a pattern without \<open>g\<close>.
\<close>

function replace_from :: "pattern \<Rightarrow> jstring \<Rightarrow> nat \<Rightarrow> jstring \<Rightarrow> jstring" where
  "replace_from pt rep p [] = (case match_at pt p [] of None \<Rightarrow> [] | Some m \<Rightarrow> rep)"
| "replace_from pt rep p (ch # s) =
     (case match_at pt p (ch # s) of
        None \<Rightarrow> ch # replace_from pt rep (Suc p) s
      | Some m \<Rightarrow>
          (if matched m = [] then rep @ ch # replace_from pt rep (Suc p) s
           else rep @ replace_from pt rep (p + length (matched m))
                        (drop (length (matched m)) (ch # s))))"
  by pat_completeness auto
termination
  by (relation "measure (\<lambda>(pt, rep, p, s). length s)") auto

definition replace :: "pattern \<Rightarrow> jstring \<Rightarrow> jstring \<Rightarrow> jstring" where
  "replace pt rep s =
     (if global pt then replace_from pt rep 0 s
      else (case exec_from pt 0 s of
              None \<Rightarrow> s
            | Some m \<Rightarrow> take (index m) s @ rep @ drop (index m + length (matched m)) s))"

subsection \<open>Writing patterns\<close>

definition chr :: "char \<Rightarrow> regex" where
  "chr c = Cls False [(of_char c, of_char c)]"

definition lit :: "string \<Rightarrow> regex" where
  "lit s = foldr (\<lambda>c r. Seq (chr c) r) s Eps"

definition seqs :: "regex list \<Rightarrow> regex" where
  "seqs rs = foldr Seq rs Eps"

fun alts :: "regex list \<Rightarrow> regex" where
  "alts [] = Eps"
| "alts [r] = r"
| "alts (r # rs) = Alt r (alts rs)"

definition opt :: "regex \<Rightarrow> regex" where "opt r = Rep 0 (Some 1) True r"
definition star :: "regex \<Rightarrow> regex" where "star r = Rep 0 None True r"
definition plus :: "regex \<Rightarrow> regex" where "plus r = Rep 1 None True r"
definition plus_lazy :: "regex \<Rightarrow> regex" where "plus_lazy r = Rep 1 None False r"

definition digit :: "(nat \<times> nat) list" where "digit = [(48, 57)]"
definition AZ :: "(nat \<times> nat) list" where "AZ = [(65, 90)]"
definition az :: "(nat \<times> nat) list" where "az = [(97, 122)]"
definition one :: "char \<Rightarrow> (nat \<times> nat) list" where "one c = [(of_char c, of_char c)]"

section \<open>Text normalisation\<close>

text \<open>
  \<^verbatim>\<open>
  normalizeText(text) {
      return text
          .replace(/\r\n/g, '\n')
          .replace(/\r/g, '\n')
          .replace(/\t/g, ' ')
          .replace(/\s+/g, ' ')
          .replace(/\n{3,}/g, '\n\n');
  }
  \<close>
\<close>

definition re_crlf :: pattern where
  "re_crlf = \<lparr>source = Seq (Cls False [(13, 13)]) (Cls False [(10, 10)]),
              global = True, ignoreCase = False\<rparr>"

definition re_cr :: pattern where
  "re_cr = \<lparr>source = Cls False [(13, 13)], global = True, ignoreCase = False\<rparr>"

definition re_tab :: pattern where
  "re_tab = \<lparr>source = Cls False [(9, 9)], global = True, ignoreCase = False\<rparr>"

definition re_spaces :: pattern where
  "re_spaces = \<lparr>source = Rep 1 None True (Cls False ws), global = True, ignoreCase = False\<rparr>"

definition re_blank_lines :: pattern where
  "re_blank_lines = \<lparr>source = Rep 3 None True (Cls False [(10, 10)]),
                     global = True, ignoreCase = False\<rparr>"

definition normalizeText :: "jstring \<Rightarrow> jstring" where
  "normalizeText text =
     replace re_blank_lines [10, 10]
       (replace re_spaces [32]
         (replace re_tab [32]
           (replace re_cr [10]
             (replace re_crlf [10] text))))"

section \<open>The pattern registry\<close>

text \<open>
  The regular expressions of \<open>PATTERNS\<close> (config.js) that the parser uses, each with the
  flags it is written with.  The literals outside ASCII are the bullet U+2022 (8226), the
  en dash U+2013 (8211) and the degree sign U+00B0 (176).
\<close>

definition re :: "regex \<Rightarrow> bool \<Rightarrow> bool \<Rightarrow> pattern" where
  "re r g i = \<lparr>source = r, global = g, ignoreCase = i\<rparr>"

definition s_plus :: regex where "s_plus = plus (Cls False ws)"
definition s_star :: regex where "s_star = star (Cls False ws)"
definition d_plus :: regex where "d_plus = plus (Cls False digit)"
definition not_nl :: regex where "not_nl = Cls True [(10, 10)]"
definition colon_ws :: regex where "colon_ws = Cls False (ws @ one CHR '':'')"

text \<open>\<open>[A-Z][A-Za-z\s&'\-\.]\<close>: the characters of an artist name after its first letter.\<close>

definition name_chars :: "(nat \<times> nat) list" where
  "name_chars = AZ @ az @ ws @ one CHR ''&'' @ [(39, 39)] @ one CHR ''-'' @ one CHR ''.''"

text \<open>\<^verbatim>\<open>(\d+|[A-Z])\<close>, the room id.\<close>

definition room_id_re :: regex where
  "room_id_re = Alt d_plus (Cls False AZ)"

definition PATTERNS_artist :: "pattern list" where
  "PATTERNS_artist =
     [re (seqs [alts [lit ''artist'', lit ''performer'', lit ''talent'', lit ''act''],
                plus colon_ws,
                Grp 1 (Seq (Cls False AZ) (plus_lazy (Cls False name_chars))),
                alts [Cls False [(10, 10)], lit ''tour'', lit ''rider'', lit ''dressing'',
                      lit ''management'']]) True True,
      re (seqs [Grp 1 (Seq (Cls False AZ) (plus_lazy (Cls False name_chars))),
                opt (Seq (Cls False [(39, 39)]) (lit ''s'')),
                s_plus,
                opt (Seq (lit ''tour'') s_plus),
                lit ''rider'']) True True,
      re (seqs [alts [lit ''for'', lit ''featuring'', Seq (lit ''present'') (opt (lit ''s''))],
                plus colon_ws,
                Grp 1 (Seq (Cls False AZ) (plus_lazy (Cls False name_chars))),
                alts [Cls False [(10, 10)], lit ''tour'', lit ''rider'']]) True True,
      re (seqs [lit ''dressing'', s_plus, lit ''room'', s_plus, d_plus, s_star,
                Cls False (one CHR ''-'' @ [(8211, 8211)] @ one CHR '':''),
                s_star,
                Grp 1 (Seq (Cls False AZ) (plus (Cls False name_chars)))]) True True]"

definition PATTERNS_room :: "pattern list" where
  "PATTERNS_room =
     [re (seqs [alts [seqs [lit ''dressing'', s_plus, lit ''room''], lit ''room'', lit ''dr'',
                      lit ''d.r.'', lit ''area''],
                s_star, opt (lit ''#''), s_star,
                Grp 1 room_id_re,
                s_star,
                opt (Cls False (one CHR ''-'' @ [(8211, 8211)] @ one CHR '':'' @ one CHR '')'')),
                s_star,
                opt (Grp 2 (plus not_nl))]) True True,
      re (seqs [alts [seqs [lit ''green'', s_plus, lit ''room''], lit ''backstage'',
                      seqs [lit ''production'', s_plus, lit ''office''], lit ''hospitality''],
                s_star, opt (lit ''#''), s_star,
                opt (Grp 1 room_id_re)]) True True,
      re (seqs [alts [lit ''artist'', lit ''talent'', lit ''performer''],
                s_plus,
                alts [lit ''room'', lit ''area''],
                s_star, opt (lit ''#''), s_star,
                opt (Grp 1 room_id_re)]) True True]"

definition PATTERNS_contact_name :: pattern where
  "PATTERNS_contact_name =
     re (seqs [alts [lit ''contact'', lit ''manager'', lit ''coordinator'', lit ''director''],
               plus colon_ws,
               Grp 1 (Seq (Cls False AZ) (plus_lazy (Cls False (AZ @ az @ ws)))),
               alts [Cls False [(10, 10)], lit ''phone'', lit ''cell'', lit ''email'',
                     lit ''@'']]) True True"

definition PATTERNS_contact_email :: pattern where
  "PATTERNS_contact_email =
     re (Grp 1 (seqs [plus (Cls False (az @ AZ @ digit @ one CHR ''.'' @ one CHR ''_'' @
                                      one CHR ''%'' @ one CHR ''+'' @ one CHR ''-'')),
                      lit ''@'',
                      plus (Cls False (az @ AZ @ digit @ one CHR ''.'' @ one CHR ''-'')),
                      lit ''.'',
                      Rep 2 None True (Cls False (az @ AZ))])) True False"

definition sep_re :: regex where
  "sep_re = opt (Cls False (ws @ one CHR ''.'' @ one CHR ''-''))"

definition PATTERNS_contact_phone :: pattern where
  "PATTERNS_contact_phone =
     re (seqs [opt (seqs [opt (lit ''+''), opt (lit ''1''), s_star]),
               opt (seqs [opt (lit ''(''), Rep 3 (Some 3) True (Cls False digit),
                          opt (lit '')''), sep_re]),
               Rep 3 (Some 3) True (Cls False digit),
               sep_re,
               Rep 4 (Some 4) True (Cls False digit)]) True False"

definition not_nl_dot :: regex where
  "not_nl_dot = Cls True ([(10, 10)] @ one CHR ''.'')"

definition PATTERNS_allergy :: "pattern list" where
  "PATTERNS_allergy =
     [re (seqs [alts [Seq (lit ''allerg'') (alts [lit ''y'', lit ''ic'', lit ''ies'']),
                      seqs [lit ''cannot'', s_plus, lit ''have''],
                      lit ''no'', lit ''avoid'', lit ''restriction''],
                star colon_ws,
                opt (alts [lit ''to'', lit ''for'']),
                s_star,
                Grp 1 (plus not_nl_dot)]) True True,
      re (seqs [lit ''do'', s_plus, lit ''not'', s_plus,
                alts [lit ''provide'', lit ''include'', lit ''serve''],
                star colon_ws,
                Grp 1 (plus not_nl_dot)]) True True,
      re (seqs [plus (lit ''*''), s_star,
                Grp 1 (plus_lazy not_nl),
                s_plus,
                alts [lit ''allergy'', lit ''allergic'', lit ''restriction'']]) True True]"

text \<open>The three patterns of \<open>PATTERNS.special\<close> that the parser uses have the flag \<open>i\<close> only.\<close>

definition PATTERNS_special_mustHave :: pattern where
  "PATTERNS_special_mustHave =
     re (alts [seqs [lit ''must'', s_plus, lit ''have''], lit ''essential'', lit ''required'',
               lit ''mandatory'', lit ''critical'']) False True"

definition PATTERNS_special_temperature :: pattern where
  "PATTERNS_special_temperature =
     re (seqs [Grp 1 d_plus, s_star, opt (Cls False [(176, 176)]), s_star,
               Grp 2 (Cls False (one CHR ''C'' @ one CHR ''F''))]) False True"

definition d12 :: regex where
  "d12 = Rep 1 (Some 2) True (Cls False digit)"

definition PATTERNS_special_timing :: pattern where
  "PATTERNS_special_timing =
     re (seqs [alts [lit ''by'', lit ''before'', lit ''after'', lit ''at''],
               s_plus,
               Grp 1 (Alt (seqs [d12, lit '':'', Rep 2 (Some 2) True (Cls False digit), s_star,
                                 opt (alts [lit ''am'', lit ''pm''])])
                          (seqs [d12, s_star,
                                 alts [Seq (lit ''hour'') (opt (lit ''s'')),
                                       Seq (lit ''hr'') (opt (lit ''s'')),
                                       Seq (lit ''minute'') (opt (lit ''s'')),
                                       Seq (lit ''min'') (opt (lit ''s''))]]))]) False True"

text \<open>
  \<^verbatim>\<open>/^[\s\-\u2022*]*(?:(\d+|one|two|three|four|five|six|seven|eight|nine|ten|dozen)\s+)?
     (?:\((\d+)\)\s+)?([^\n]+?)(?:\s*[-\u2013]\s*([^\n]+))?$/i\<close>
\<close>

definition PATTERNS_item :: pattern where
  "PATTERNS_item =
     re (seqs [Bol,
               star (Cls False (ws @ one CHR ''-'' @ [(8226, 8226)] @ one CHR ''*'')),
               opt (Seq (Grp 1 (alts [d_plus, lit ''one'', lit ''two'', lit ''three'',
                                      lit ''four'', lit ''five'', lit ''six'', lit ''seven'',
                                      lit ''eight'', lit ''nine'', lit ''ten'', lit ''dozen'']))
                        s_plus),
               opt (seqs [lit ''('', Grp 2 d_plus, lit '')'', s_plus]),
               Grp 3 (plus_lazy not_nl),
               opt (seqs [s_star, Cls False (one CHR ''-'' @ [(8211, 8211)]), s_star,
                          Grp 4 (plus not_nl)]),
               Eol]) False True"

text \<open>A word with an optional plural \<open>s\<close>, as in \<open>beverages?\<close>.\<close>

definition pl :: "string \<Rightarrow> regex" where
  "pl w = Seq (lit w) (opt (lit ''s''))"

definition cat_re :: "regex list \<Rightarrow> pattern" where
  "cat_re ws' = re (Seq Bol (Grp 1 (alts ws'))) False True"

definition PATTERNS_category :: "pattern list" where
  "PATTERNS_category =
     [cat_re [pl ''beverage'', pl ''drink'', lit ''alcohol'', lit ''liquor'', lit ''bar'',
              lit ''spirits''],
      cat_re [lit ''food'', lit ''catering'', pl ''meal'', pl ''snack'', lit ''fruit'',
              pl ''vegetable''],
      cat_re [lit ''equipment'', lit ''technical'', lit ''production'', lit ''av'',
              lit ''audio'', lit ''video'', lit ''lighting''],
      cat_re [lit ''furniture'', pl ''furnishing'', lit ''decor'', lit ''amenities''],
      cat_re [lit ''toiletries'', seqs [lit ''personal'', s_plus, lit ''care''],
              lit ''hygiene'', lit ''bathroom''],
      cat_re [pl ''flower'', pl ''arrangement'', pl ''decoration''],
      cat_re [lit ''hospitality'', lit ''service'', lit ''staff'', lit ''crew''],
      cat_re [lit ''security'', lit ''access'', lit ''credentials'', lit ''passes''],
      cat_re [lit ''transportation'', lit ''parking'', pl ''vehicle''],
      cat_re [lit ''wardrobe'', lit ''clothing'', lit ''laundry'', pl ''costume'']]"

text \<open>The tables of config.js, in the order in which they are written.\<close>

definition minArtistNameLength :: nat where "minArtistNameLength = 3"
definition maxCategoryLength :: nat where "maxCategoryLength = 40"
definition minItemLength :: nat where "minItemLength = 3"

definition CATEGORY_KEYWORDS :: "(string \<times> string list) list" where
  "CATEGORY_KEYWORDS =
     [(''beverages'', [''water'', ''soda'', ''juice'', ''tea'', ''coffee'', ''beer'', ''wine'',
        ''vodka'', ''whiskey'', ''tequila'', ''rum'', ''champagne'', ''drinks'', ''bottle'',
        ''can'', ''beverage'']),
      (''food'', [''sandwich'', ''salad'', ''fruit'', ''vegetable'', ''snack'', ''meal'',
        ''dinner'', ''lunch'', ''breakfast'', ''pizza'', ''chips'', ''candy'', ''chocolate'',
        ''nuts'', ''cheese'', ''meat'', ''chicken'', ''beef'', ''fish'']),
      (''equipment'', [''microphone'', ''speaker'', ''cable'', ''stand'', ''light'',
        ''projector'', ''screen'', ''computer'', ''laptop'', ''printer'', ''phone'',
        ''charger'', ''adapter'', ''extension'']),
      (''furniture'', [''chair'', ''table'', ''sofa'', ''couch'', ''desk'', ''lamp'',
        ''mirror'', ''rug'', ''carpet'', ''stool'', ''bench'', ''rack'', ''shelf'',
        ''cabinet'']),
      (''toiletries'', [''soap'', ''shampoo'', ''towel'', ''tissue'', ''toilet'',
        ''toothbrush'', ''toothpaste'', ''deodorant'', ''lotion'', ''cream'', ''razor'',
        ''cotton'', ''wipes'']),
      (''wardrobe'', [''iron'', ''steamer'', ''hanger'', ''rack'', ''laundry'',
        ''dry cleaning'', ''pressing'', ''garment'', ''costume'', ''outfit'', ''clothing'']),
      (''hospitality'', [''tea'', ''coffee'', ''sugar'', ''cream'', ''milk'', ''honey'',
        ''lemon'', ''ice'', ''napkin'', ''plate'', ''cup'', ''glass'', ''utensil'',
        ''service''])]"

definition QUANTITY_MAP :: "(string \<times> nat) list" where
  "QUANTITY_MAP =
     [(''one'', 1), (''two'', 2), (''three'', 3), (''four'', 4), (''five'', 5), (''six'', 6),
      (''seven'', 7), (''eight'', 8), (''nine'', 9), (''ten'', 10), (''eleven'', 11),
      (''twelve'', 12), (''dozen'', 12), (''half dozen'', 6), (''half-dozen'', 6),
      (''case'', 24), (''pair'', 2), (''couple'', 2), (''few'', 3), (''several'', 4),
      (''many'', 6)]"

definition COMMON_ALLERGENS :: "string list" where
  "COMMON_ALLERGENS =
     [''nuts'', ''peanuts'', ''tree nuts'', ''almonds'', ''cashews'', ''walnuts'', ''pecans'',
      ''dairy'', ''milk'', ''cheese'', ''lactose'', ''butter'', ''cream'',
      ''gluten'', ''wheat'', ''bread'', ''flour'',
      ''shellfish'', ''shrimp'', ''lobster'', ''crab'', ''oysters'',
      ''eggs'', ''egg'',
      ''soy'', ''soybean'',
      ''fish'', ''salmon'', ''tuna'', ''cod'',
      ''sesame'', ''sesame seeds'',
      ''sulfites'', ''preservatives'']"

section \<open>The structured record\<close>

text \<open>
  The \<open>name\<close>, the \<open>category\<close> and the \<open>room\<close> of an item are compared with \<open>===\<close>
  when the items are flattened, and they are not always strings: the item builder stores
  strings for the name and the category and \<open>null\<close> or the room id for the room, an
  item of the external source may lack a key (\<open>undefined\<close>) or have any JSON value
  under it.  \<open>Other n\<close> is a value that is neither a string, \<open>null\<close> nor
  \<open>undefined\<close> (a number, a boolean, an object), \<open>n\<close> naming its class under \<open>===\<close>:
  the number or boolean it is, the object it refers to.  Equality of \<open>jsval\<close> is then
  \<open>===\<close> (\<open>JSON.parse\<close> gives no \<open>NaN\<close>).
\<close>

datatype jsval = Undefined | Null | Str jstring | Other nat

text \<open>
  In the other optional fields \<open>None\<close> is \<open>null\<close> or \<open>undefined\<close>; they are only
  tested for truthiness or copied.  The quantity is the number \<open>parseQuantity\<close>
  returns; the category mapping is the list that \<open>Object.entries\<close> gives, which for the
  names the classifier makes (none is an integer index) is the order of insertion.  The
  item's \<open>notes\<close> is \<open>item_notes\<close>; the room's \<open>id\<close>, \<open>name\<close> and \<open>items\<close> are
  \<open>room_id\<close>, \<open>room_name\<close> and \<open>room_items\<close>; the contact's \<open>name\<close> is
  \<open>contact_name\<close>.
\<close>

record Item =
  name :: jsval
  quantity :: nat
  unit :: jstring
  brand :: "jstring option"
  room :: jsval
  category :: jsval
  item_notes :: jstring
  mustHave :: bool

record Room =
  room_id :: jstring
  room_name :: jstring
  description :: jstring
  room_items :: "Item list"

record Contact =
  contact_name :: jstring
  role :: jstring
  email :: "jstring option"
  phone :: "jstring option"

record StructuredRider =
  artists :: "jstring list"
  rooms :: "Room list"
  categories :: "(jstring \<times> Item list) list"
  items :: "Item list"
  allergies :: "jstring list"
  contacts :: "Contact list"
  specialRequirements :: "jstring list"

section \<open>Utility functions of the parser\<close>

text \<open>A JavaScript value is truthy unless it is \<open>null\<close>, \<open>undefined\<close> or the empty string.\<close>

definition truthy :: "jstring option \<Rightarrow> bool" where
  "truthy v = (case v of None \<Rightarrow> False | Some s \<Rightarrow> s \<noteq> [])"

text \<open>\<^verbatim>\<open>a || b\<close> on values that are strings or \<open>undefined\<close>.\<close>

definition js_or :: "jstring option \<Rightarrow> jstring option \<Rightarrow> jstring option" where
  "js_or a b = (if truthy a then a else b)"

text \<open>A value inside a template literal: \<open>undefined\<close> prints as its name.\<close>

definition str_of :: "jstring option \<Rightarrow> jstring" where
  "str_of v = (case v of None \<Rightarrow> js ''undefined'' | Some s \<Rightarrow> s)"

text \<open>
  \<^verbatim>\<open>
  cleanName(str)  { if (!str) return ''; return str.trim().replace(/\s+/g, ' '); }
  cleanPhone(str) { return str.replace(/[^\d+\-().\s]/g, '').trim(); }
  cleanAllergy(str) { return str.trim().replace(/[^\w\s,]/g, '').replace(/\s+/g, ' '); }
  cleanItemName(str) {
      return str.replace(/^[\-\u2022*\s]+/, '').replace(/\s+/g, ' ').trim(); }
  capitalizeFirst(str) { return str.charAt(0).toUpperCase() + str.slice(1); }
  \<close>
\<close>

definition cleanName :: "jstring option \<Rightarrow> jstring" where
  "cleanName str = (if \<not> truthy str then [] else replace re_spaces [32] (trim (str_of str)))"

definition re_not_phone :: pattern where
  "re_not_phone =
     re (Cls True (digit @ one CHR ''+'' @ one CHR ''-'' @ one CHR ''('' @ one CHR '')'' @
                   one CHR ''.'' @ ws)) True False"

definition cleanPhone :: "jstring \<Rightarrow> jstring" where
  "cleanPhone str = trim (replace re_not_phone [] str)"

definition word_chars :: "(nat \<times> nat) list" where
  "word_chars = AZ @ az @ digit @ one CHR ''_''"

definition re_not_allergy :: pattern where
  "re_not_allergy = re (Cls True (word_chars @ ws @ one CHR '','')) True False"

definition cleanAllergy :: "jstring \<Rightarrow> jstring" where
  "cleanAllergy str = replace re_spaces [32] (replace re_not_allergy [] (trim str))"

definition re_bullets :: pattern where
  "re_bullets =
     re (Seq Bol (plus (Cls False (one CHR ''-'' @ [(8226, 8226)] @ one CHR ''*'' @ ws))))
        False False"

definition cleanItemName :: "jstring \<Rightarrow> jstring" where
  "cleanItemName str = trim (replace re_spaces [32] (replace re_bullets [] str))"

definition capitalizeFirst :: "jstring \<Rightarrow> jstring" where
  "capitalizeFirst str = (case str of [] \<Rightarrow> [] | c # cs \<Rightarrow> upper c # cs)"

text \<open>
  \<^verbatim>\<open>
  standardizeCategoryName(str) {
      const map = { 'BEVERAGES': 'Beverages', 'DRINKS': 'Beverages', 'FOOD': 'Food',
          'CATERING': 'Food', 'EQUIPMENT': 'Equipment', 'TECH': 'Equipment',
          'FURNITURE': 'Furniture', 'TOILETRIES': 'Personal Care',
          'PERSONAL CARE': 'Personal Care', 'HOSPITALITY': 'Hospitality' };
      const upper = str.toUpperCase().trim();
      return map[upper] || this.capitalizeFirst(str.toLowerCase());
  }
  \<close>
\<close>

definition category_aliases :: "(string \<times> string) list" where
  "category_aliases =
     [(''BEVERAGES'', ''Beverages''), (''DRINKS'', ''Beverages''), (''FOOD'', ''Food''),
      (''CATERING'', ''Food''), (''EQUIPMENT'', ''Equipment''), (''TECH'', ''Equipment''),
      (''FURNITURE'', ''Furniture''), (''TOILETRIES'', ''Personal Care''),
      (''PERSONAL CARE'', ''Personal Care''), (''HOSPITALITY'', ''Hospitality'')]"

text \<open>Looking a string up in a table written with ASCII keys.\<close>

fun lookup :: "(string \<times> 'a) list \<Rightarrow> jstring \<Rightarrow> 'a option" where
  "lookup [] k = None"
| "lookup ((k', v) # kvs) k = (if js k' = k then Some v else lookup kvs k)"

definition standardizeCategoryName :: "jstring \<Rightarrow> jstring" where
  "standardizeCategoryName str =
     (case lookup category_aliases (trim (toUpperCase str)) of
        Some v \<Rightarrow> js v
      | None \<Rightarrow> capitalizeFirst (toLowerCase str))"

section \<open>Field extractors\<close>

text \<open>A JavaScript \<open>Set\<close> keeps its members in insertion order.\<close>

definition set_add :: "jstring list \<Rightarrow> jstring \<Rightarrow> jstring list" where
  "set_add xs x = (if x \<in> set xs then xs else xs @ [x])"

text \<open>
  \<^verbatim>\<open>
  parseArtists(text) {
      const artists = new Set();
      PATTERNS.artist.forEach(pattern => {
          const matches = text.matchAll(pattern);
          for (const match of matches) {
              const artist = this.cleanName(match[1]);
              if (artist && artist.length >= CONFIG.parsing.minArtistNameLength) {
                  artists.add(artist);
              }
          }
      });
      return Array.from(artists);
  }
  \<close>
\<close>

definition add_artist :: "jstring list \<Rightarrow> rmatch \<Rightarrow> jstring list" where
  "add_artist found m =
     (let artist = cleanName (grp m 1)
      in if artist \<noteq> [] \<and> minArtistNameLength \<le> length artist then set_add found artist
         else found)"

fun parseArtists_loop :: "pattern list \<Rightarrow> jstring \<Rightarrow> jstring list \<Rightarrow> error + jstring list" where
  "parseArtists_loop [] text found = Inr found"
| "parseArtists_loop (pt # pts) text found =
     (case matchAll pt text of
        Inl e \<Rightarrow> Inl e
      | Inr ms \<Rightarrow> parseArtists_loop pts text (foldl add_artist found ms))"

definition parseArtists :: "jstring \<Rightarrow> error + jstring list" where
  "parseArtists text = parseArtists_loop PATTERNS_artist text []"

text \<open>
  \<^verbatim>\<open>
  parseRooms(text) {
      const rooms = [];
      const seen = new Set();
      PATTERNS.room.forEach(pattern => {
          const matches = text.matchAll(pattern);
          for (const match of matches) {
              const id = match[1];
              if (id && !seen.has(id)) {
                  seen.add(id);
                  rooms.push({ id: id, name: `Room ${id}`,
                      description: match[2] ? this.cleanName(match[2]) : '', items: [] });
              }
          }
      });
      return rooms;
  }
  \<close>
\<close>

definition add_room :: "Room list \<times> jstring list \<Rightarrow> rmatch \<Rightarrow> Room list \<times> jstring list" where
  "add_room st m =
     (case st of (found, seen) \<Rightarrow>
        (if truthy (grp m 1) \<and> str_of (grp m 1) \<notin> set seen then
           (found @ [\<lparr>room_id = str_of (grp m 1),
                       room_name = js ''Room '' @ str_of (grp m 1),
                       description = (if truthy (grp m 2) then cleanName (grp m 2) else []),
                       room_items = []\<rparr>],
            set_add seen (str_of (grp m 1)))
         else st))"

fun parseRooms_loop ::
  "pattern list \<Rightarrow> jstring \<Rightarrow> Room list \<times> jstring list \<Rightarrow> error + Room list" where
  "parseRooms_loop [] text st = Inr (fst st)"
| "parseRooms_loop (pt # pts) text st =
     (case matchAll pt text of
        Inl e \<Rightarrow> Inl e
      | Inr ms \<Rightarrow> parseRooms_loop pts text (foldl add_room st ms))"

definition parseRooms :: "jstring \<Rightarrow> error + Room list" where
  "parseRooms text = parseRooms_loop PATTERNS_room text ([], [])"

text \<open>
  \<^verbatim>\<open>
  parseContacts(text) {
      const contacts = [];
      const nameMatches = text.matchAll(PATTERNS.contact.name);
      for (const match of nameMatches) {
          const contact = {
              name: this.cleanName(match[1]),
              role: match[0].includes('Manager') ? 'Tour Manager' : 'Contact'
          };
          const nearbyText = text.substring(
              Math.max(0, match.index - 100),
              Math.min(text.length, match.index + 200)
          );
          const emailMatch = nearbyText.match(PATTERNS.contact.email);
          if (emailMatch) contact.email = emailMatch[1];
          const phoneMatch = nearbyText.match(PATTERNS.contact.phone);
          if (phoneMatch) contact.phone = this.cleanPhone(phoneMatch[0]);
          if (contact.name) contacts.push(contact);
      }
      return contacts;
  }
  \<close>
\<close>

definition nearbyText :: "jstring \<Rightarrow> nat \<Rightarrow> jstring" where
  "nearbyText text i =
     substring text (nat (max 0 (int i - 100))) (min (length text) (i + 200))"

definition make_contact :: "jstring \<Rightarrow> rmatch \<Rightarrow> Contact" where
  "make_contact text m =
     \<lparr>contact_name = cleanName (grp m 1),
      role = (if includes_str (matched m) (js ''Manager'') then js ''Tour Manager''
              else js ''Contact''),
      email = (case str_match PATTERNS_contact_email (nearbyText text (index m)) of
                 None \<Rightarrow> None
               | Some emailMatch \<Rightarrow> at emailMatch 1),
      phone = (case str_match PATTERNS_contact_phone (nearbyText text (index m)) of
                 None \<Rightarrow> None
               | Some phoneMatch \<Rightarrow> map_option cleanPhone (at phoneMatch 0))\<rparr>"

definition parseContacts :: "jstring \<Rightarrow> error + Contact list" where
  "parseContacts text =
     (case matchAll PATTERNS_contact_name text of
        Inl e \<Rightarrow> Inl e
      | Inr nameMatches \<Rightarrow>
          Inr (filter (\<lambda>c. contact_name c \<noteq> []) (map (make_contact text) nameMatches)))"

text \<open>
  \<^verbatim>\<open>
  parseAllergies(text) {
      const allergies = new Set();
      PATTERNS.allergy.forEach(pattern => {
          const matches = text.matchAll(pattern);
          for (const match of matches) {
              const allergy = this.cleanAllergy(match[1]);
              if (allergy && allergy.length < 100) {
                  COMMON_ALLERGENS.forEach(common => {
                      if (allergy.toLowerCase().includes(common)) { allergies.add(common); }
                  });
                  if (allergy.length < 50) { allergies.add(allergy); }
              }
          }
      });
      return Array.from(allergies);
  }
  \<close>
  Group 1 takes part in every match of the three allergy patterns, so \<open>match[1]\<close> is a
  string.
\<close>

definition add_allergy :: "jstring list \<Rightarrow> rmatch \<Rightarrow> jstring list" where
  "add_allergy found m =
     (let allergy = cleanAllergy (str_of (grp m 1))
      in if allergy \<noteq> [] \<and> length allergy < 100 then
           (let found' = foldl (\<lambda>a common.
                                   if includes_str (toLowerCase allergy) (js common)
                                   then set_add a (js common) else a)
                               found COMMON_ALLERGENS
            in if length allergy < 50 then set_add found' allergy else found')
         else found)"

fun parseAllergies_loop :: "pattern list \<Rightarrow> jstring \<Rightarrow> jstring list \<Rightarrow> error + jstring list" where
  "parseAllergies_loop [] text found = Inr found"
| "parseAllergies_loop (pt # pts) text found =
     (case matchAll pt text of
        Inl e \<Rightarrow> Inl e
      | Inr ms \<Rightarrow> parseAllergies_loop pts text (foldl add_allergy found ms))"

definition parseAllergies :: "jstring \<Rightarrow> error + jstring list" where
  "parseAllergies text = parseAllergies_loop PATTERNS_allergy text []"

text \<open>
  \<^verbatim>\<open>
  parseSpecialRequirements(text) {
      const requirements = [];
      const tempMatches = text.matchAll(PATTERNS.special.temperature);
      for (const match of tempMatches) {
          requirements.push(`Temperature: ${match[1]}\u00B0${match[2]}`);
      }
      const timeMatches = text.matchAll(PATTERNS.special.timing);
      for (const match of timeMatches) {
          requirements.push(`Timing: ${match[0]}`);
      }
      const mustHaveMatches = text.matchAll(PATTERNS.special.mustHave);
      for (const match of mustHaveMatches) {
          const context = text.substring(match.index, match.index + 100);
          const itemMatch = context.match(/([A-Za-z\s]+)/);
          if (itemMatch) {
              requirements.push(`Must Have: ${itemMatch[1].trim()}`);
          }
      }
      return requirements;
  }
  \<close>
\<close>

definition re_letters :: pattern where
  "re_letters = re (Grp 1 (plus (Cls False (AZ @ az @ ws)))) False False"

definition must_have_requirement :: "jstring \<Rightarrow> rmatch \<Rightarrow> jstring list" where
  "must_have_requirement text m =
     (case str_match re_letters (substring text (index m) (index m + 100)) of
        None \<Rightarrow> []
      | Some itemMatch \<Rightarrow> [js ''Must Have: '' @ trim (str_of (at itemMatch 1))])"

definition parseSpecialRequirements :: "jstring \<Rightarrow> error + jstring list" where
  "parseSpecialRequirements text =
     (case matchAll PATTERNS_special_temperature text of
        Inl e \<Rightarrow> Inl e
      | Inr tempMatches \<Rightarrow>
     (case matchAll PATTERNS_special_timing text of
        Inl e \<Rightarrow> Inl e
      | Inr timeMatches \<Rightarrow>
     (case matchAll PATTERNS_special_mustHave text of
        Inl e \<Rightarrow> Inl e
      | Inr mustHaveMatches \<Rightarrow>
          Inr (map (\<lambda>m. js ''Temperature: '' @ str_of (grp m 1) @ [176] @ str_of (grp m 2))
                   tempMatches
               @ map (\<lambda>m. js ''Timing: '' @ matched m) timeMatches
               @ concat (map (must_have_requirement text) mustHaveMatches)))))"

section \<open>Item builder\<close>

text \<open>
  \<^verbatim>\<open>
  parseQuantity(str) {
      if (!str) return 1;
      const num = parseInt(str);
      if (!isNaN(num)) return num;
      const lower = str.toLowerCase();
      return QUANTITY_MAP[lower] || 1;
  }
  \<close>
  \<open>parseInt\<close> on a string that starts with neither white space, a sign nor \<open>0x\<close> (the
  captures of the item pattern are digits or one of its number words): the value of the
  leading decimal digits, \<open>NaN\<close> (\<open>None\<close>) when there is none.  The value is exact below
  \<open>2^53\<close>.
\<close>

definition isdigit :: "nat \<Rightarrow> bool" where
  "isdigit c = (48 \<le> c \<and> c \<le> 57)"

definition decimal :: "jstring \<Rightarrow> nat" where
  "decimal ds = foldl (\<lambda>n c. 10 * n + (c - 48)) 0 ds"

definition parseInt :: "jstring \<Rightarrow> nat option" where
  "parseInt s = (if takeWhile isdigit s = [] then None else Some (decimal (takeWhile isdigit s)))"

definition parseQuantity :: "jstring option \<Rightarrow> nat" where
  "parseQuantity str =
     (if \<not> truthy str then 1
      else (case parseInt (str_of str) of
              Some num \<Rightarrow> num
            | None \<Rightarrow>
                (case lookup QUANTITY_MAP (toLowerCase (str_of str)) of
                   Some q \<Rightarrow> q
                 | None \<Rightarrow> 1)))"

text \<open>
  \<^verbatim>\<open>
  detectUnit(name) {
      const units = { 'bottle': /bottles?/i, 'can': /cans?/i, 'case': /cases?/i,
          'pack': /packs?/i, 'box': /box(es)?/i, 'bag': /bags?/i, 'dozen': /dozens?/i,
          'pound': /pounds?|lbs?/i, 'gallon': /gallons?/i, 'liter': /liters?|litres?/i };
      for (const [unit, pattern] of Object.entries(units)) {
          if (pattern.test(name)) return unit;
      }
      return 'item';
  }
  \<close>
\<close>

definition units :: "(string \<times> pattern) list" where
  "units =
     [(''bottle'', re (pl ''bottle'') False True),
      (''can'', re (pl ''can'') False True),
      (''case'', re (pl ''case'') False True),
      (''pack'', re (pl ''pack'') False True),
      (''box'', re (Seq (lit ''box'') (opt (Grp 1 (lit ''es'')))) False True),
      (''bag'', re (pl ''bag'') False True),
      (''dozen'', re (pl ''dozen'') False True),
      (''pound'', re (Alt (pl ''pound'') (pl ''lb'')) False True),
      (''gallon'', re (pl ''gallon'') False True),
      (''liter'', re (Alt (pl ''liter'') (pl ''litre'')) False True)]"

definition detectUnit :: "jstring \<Rightarrow> jstring" where
  "detectUnit nm =
     (case find (\<lambda>(u, pt). re_test pt nm) units of
        Some (u, pt) \<Rightarrow> js u
      | None \<Rightarrow> js ''item'')"

text \<open>
  \<^verbatim>\<open>
  detectBrand(name) {
      const brands = [ 'Coca-Cola', 'Coke', 'Pepsi', 'Sprite', 'Dr Pepper',
          'Fiji', 'Evian', 'SmartWater', 'Dasani', 'Red Bull', 'Monster', 'Rockstar',
          'Hennessy', 'Grey Goose', 'Patron', 'Don Julio', 'Casamigos',
          'Dove', 'Gillette', 'Colgate', 'Crest' ];
      for (const brand of brands) { if (name.includes(brand)) return brand; }
      return null;
  }
  \<close>
\<close>

definition brands :: "string list" where
  "brands =
     [''Coca-Cola'', ''Coke'', ''Pepsi'', ''Sprite'', ''Dr Pepper'',
      ''Fiji'', ''Evian'', ''SmartWater'', ''Dasani'',
      ''Red Bull'', ''Monster'', ''Rockstar'',
      ''Hennessy'', ''Grey Goose'', ''Patron'', ''Don Julio'', ''Casamigos'',
      ''Dove'', ''Gillette'', ''Colgate'', ''Crest'']"

definition detectBrand :: "jstring \<Rightarrow> jstring option" where
  "detectBrand nm = map_option js (find (\<lambda>b. includes_str nm (js b)) brands)"

text \<open>
  \<^verbatim>\<open>
  parseItem(line, category, room) {
      const match = line.match(PATTERNS.item);
      if (!match || !match[3]) return null;
      const itemName = this.cleanItemName(match[3]);
      if (!itemName || itemName.length < CONFIG.parsing.minItemLength) return null;
      return {
          name: itemName,
          quantity: this.parseQuantity(match[1] || match[2]),
          unit: this.detectUnit(itemName),
          brand: this.detectBrand(itemName),
          room: room,
          category: category,
          notes: match[4] || '',
          mustHave: PATTERNS.special.mustHave.test(line)
      };
  }
  \<close>
\<close>

definition parseItem :: "jstring \<Rightarrow> jstring \<Rightarrow> jsval \<Rightarrow> Item option" where
  "parseItem line cat rm =
     (case str_match PATTERNS_item line of
        None \<Rightarrow> None
      | Some m \<Rightarrow>
          if \<not> truthy (at m 3) then None
          else if cleanItemName (str_of (at m 3)) = []
                  \<or> length (cleanItemName (str_of (at m 3))) < minItemLength then None
          else Some \<lparr>name = Str (cleanItemName (str_of (at m 3))),
                      quantity = parseQuantity (js_or (at m 1) (at m 2)),
                      unit = detectUnit (cleanItemName (str_of (at m 3))),
                      brand = detectBrand (cleanItemName (str_of (at m 3))),
                      room = rm,
                      category = Str cat,
                      item_notes = (if truthy (at m 4) then str_of (at m 4) else []),
                      mustHave = re_test PATTERNS_special_mustHave line\<rparr>)"

section \<open>Line classifier\<close>

text \<open>
  \<^verbatim>\<open>
  detectCategory(line) {
      for (const pattern of PATTERNS.category) {
          if (pattern.test(line)) { return this.standardizeCategoryName(line); }
      }
      for (const [category, keywords] of Object.entries(CATEGORY_KEYWORDS)) {
          for (const keyword of keywords) {
              if (line.toLowerCase().includes(keyword)) {
                  return this.capitalizeFirst(category);
              }
          }
      }
      if (/^[A-Z\s&]+$/.test(line) && line.length < CONFIG.parsing.maxCategoryLength) {
          return this.standardizeCategoryName(line);
      }
      return null;
  }
  \<close>
\<close>

definition re_header :: pattern where
  "re_header = re (seqs [Bol, plus (Cls False (AZ @ ws @ one CHR ''&'')), Eol]) False False"

definition detectCategory :: "jstring \<Rightarrow> jstring option" where
  "detectCategory line =
     (if list_ex (\<lambda>pt. re_test pt line) PATTERNS_category
      then Some (standardizeCategoryName line)
      else (case find (\<lambda>(cat, keywords).
                         list_ex (\<lambda>keyword. includes_str (toLowerCase line) (js keyword))
                                 keywords)
                      CATEGORY_KEYWORDS of
              Some (cat, keywords) \<Rightarrow> Some (capitalizeFirst (js cat))
            | None \<Rightarrow>
                if re_test re_header line \<and> length line < maxCategoryLength
                then Some (standardizeCategoryName line)
                else None))"

text \<open>
  \<^verbatim>\<open>
  detectRoomContext(line) {
      for (const pattern of PATTERNS.room) {
          const match = line.match(pattern);
          if (match) { return match[1]; }
      }
      return null;
  }
  \<close>
\<close>

fun detectRoomContext_loop :: "pattern list \<Rightarrow> jstring \<Rightarrow> jstring option" where
  "detectRoomContext_loop [] line = None"
| "detectRoomContext_loop (pt # pts) line =
     (case str_match pt line of
        Some m \<Rightarrow> at m 1
      | None \<Rightarrow> detectRoomContext_loop pts line)"

definition detectRoomContext :: "jstring \<Rightarrow> jstring option" where
  "detectRoomContext line = detectRoomContext_loop PATTERNS_room line"

text \<open>
  \<^verbatim>\<open>
  parseItemsAndCategories(text, rooms) {
      const items = [];
      const categories = {};
      const lines = text.split('\n');
      let currentCategory = 'General';
      let currentRoom = null;
      lines.forEach((line, index) => {
          const trimmed = line.trim();
          if (!trimmed) return;
          const categoryMatch = this.detectCategory(trimmed);
          if (categoryMatch) {
              currentCategory = categoryMatch;
              if (!categories[currentCategory]) { categories[currentCategory] = []; }
              return;
          }
          const roomMatch = this.detectRoomContext(trimmed);
          if (roomMatch) { currentRoom = roomMatch; }
          const item = this.parseItem(trimmed, currentCategory, currentRoom);
          if (item) {
              items.push(item);
              if (!categories[currentCategory]) { categories[currentCategory] = []; }
              categories[currentCategory].push(item);
              if (currentRoom) {
                  const room = rooms.find(r => r.id === currentRoom);
                  if (room) { room.items.push(item); }
              }
          }
      });
      return { items, categories };
  }
  \<close>
  The state of the pass: the two running variables, the two results, and the rooms, whose
  item lists the pass appends to.  \<open>currentRoom\<close> is \<open>null\<close> (\<open>None\<close>) or a non-empty
  string; \<open>room_value\<close> is that value as the item stores it.
\<close>

definition room_value :: "jstring option \<Rightarrow> jsval" where
  "room_value cur = (case cur of None \<Rightarrow> Null | Some s \<Rightarrow> Str s)"

record line_state =
  currentCategory :: jstring
  currentRoom :: "jstring option"
  ls_items :: "Item list"
  ls_categories :: "(jstring \<times> Item list) list"
  ls_rooms :: "Room list"

definition ensure_category :: "(jstring \<times> Item list) list \<Rightarrow> jstring \<Rightarrow> (jstring \<times> Item list) list" where
  "ensure_category cats c = (if c \<in> fst ` set cats then cats else cats @ [(c, [])])"

definition push_category ::
  "(jstring \<times> Item list) list \<Rightarrow> jstring \<Rightarrow> Item \<Rightarrow> (jstring \<times> Item list) list" where
  "push_category cats c it =
     map (\<lambda>(k, v). if k = c then (k, v @ [it]) else (k, v)) (ensure_category cats c)"

text \<open>\<open>rooms.find(r => r.id === currentRoom)\<close>, then \<open>room.items.push(item)\<close>.\<close>

fun push_room :: "Room list \<Rightarrow> jstring \<Rightarrow> Item \<Rightarrow> Room list" where
  "push_room [] rid it = []"
| "push_room (r # rs) rid it =
     (if room_id r = rid then r\<lparr>room_items := room_items r @ [it]\<rparr> # rs
      else r # push_room rs rid it)"

definition item_line :: "jstring \<Rightarrow> line_state \<Rightarrow> line_state" where
  "item_line trimmed st =
     (let cur = (if truthy (detectRoomContext trimmed) then detectRoomContext trimmed
                 else currentRoom st)
      in (case parseItem trimmed (currentCategory st) (room_value cur) of
            None \<Rightarrow> st\<lparr>currentRoom := cur\<rparr>
          | Some it \<Rightarrow>
              st\<lparr>currentRoom := cur,
                 ls_items := ls_items st @ [it],
                 ls_categories := push_category (ls_categories st) (currentCategory st) it,
                 ls_rooms := (if truthy cur then push_room (ls_rooms st) (str_of cur) it
                              else ls_rooms st)\<rparr>))"

definition classify_line :: "line_state \<Rightarrow> jstring \<Rightarrow> line_state" where
  "classify_line st line =
     (if trim line = [] then st
      else if truthy (detectCategory (trim line)) then
        st\<lparr>currentCategory := str_of (detectCategory (trim line)),
           ls_categories :=
             ensure_category (ls_categories st) (str_of (detectCategory (trim line)))\<rparr>
      else item_line (trim line) st)"

definition parseItemsAndCategories :: "jstring \<Rightarrow> Room list \<Rightarrow> line_state" where
  "parseItemsAndCategories text rms =
     foldl classify_line
       \<lparr>currentCategory = js ''General'', currentRoom = None, ls_items = [],
        ls_categories = [], ls_rooms = rms\<rparr>
       (split_lines text)"

section \<open>Orchestration\<close>

text \<open>
  \<^verbatim>\<open>
  parseWithRegex(text) {
      const result = { artists: [], rooms: [], categories: {}, items: [],
                       allergies: [], contacts: [], specialRequirements: [] };
      result.artists = this.parseArtists(text);
      result.rooms = this.parseRooms(text);
      result.contacts = this.parseContacts(text);
      result.allergies = this.parseAllergies(text);
      result.specialRequirements = this.parseSpecialRequirements(text);
      const itemsAndCategories = this.parseItemsAndCategories(text, result.rooms);
      result.items = itemsAndCategories.items;
      result.categories = itemsAndCategories.categories;
      return result;
  }
  \<close>
  An exception in a step ends the function with that exception.
\<close>

definition parseWithRegex :: "jstring \<Rightarrow> error + StructuredRider" where
  "parseWithRegex text =
     (case parseArtists text of Inl e \<Rightarrow> Inl e | Inr a \<Rightarrow>
     (case parseRooms text of Inl e \<Rightarrow> Inl e | Inr r \<Rightarrow>
     (case parseContacts text of Inl e \<Rightarrow> Inl e | Inr c \<Rightarrow>
     (case parseAllergies text of Inl e \<Rightarrow> Inl e | Inr al \<Rightarrow>
     (case parseSpecialRequirements text of Inl e \<Rightarrow> Inl e | Inr sr \<Rightarrow>
        Inr \<lparr>artists = a,
             rooms = ls_rooms (parseItemsAndCategories text r),
             categories = ls_categories (parseItemsAndCategories text r),
             items = ls_items (parseItemsAndCategories text r),
             allergies = al,
             contacts = c,
             specialRequirements = sr\<rparr>)))))"

text \<open>
  The external extraction: \<open>parseWithLLM\<close> either throws or returns the parsed JSON value,
  \<open>null\<close> or an object in which any field may be missing.
  \<^verbatim>\<open>
  standardizeOutput(data) {
      return { artists: data.artists || [], rooms: data.rooms || [],
          categories: data.categories || {}, items: data.items || [],
          allergies: data.allergies || [], contacts: data.contacts || [],
          specialRequirements: data.specialRequirements || [] };
  }
  \<close>
\<close>

datatype 'a outcome = Throws | Returns 'a

record LLMResult =
  llm_artists :: "jstring list option"
  llm_rooms :: "Room list option"
  llm_categories :: "(jstring \<times> Item list) list option"
  llm_items :: "Item list option"
  llm_allergies :: "jstring list option"
  llm_contacts :: "Contact list option"
  llm_specialRequirements :: "jstring list option"

definition or_empty :: "'a list option \<Rightarrow> 'a list" where
  "or_empty v = (case v of None \<Rightarrow> [] | Some xs \<Rightarrow> xs)"

definition standardizeOutput :: "LLMResult \<Rightarrow> StructuredRider" where
  "standardizeOutput d =
     \<lparr>artists = or_empty (llm_artists d),
      rooms = or_empty (llm_rooms d),
      categories = or_empty (llm_categories d),
      items = or_empty (llm_items d),
      allergies = or_empty (llm_allergies d),
      contacts = or_empty (llm_contacts d),
      specialRequirements = or_empty (llm_specialRequirements d)\<rparr>"

text \<open>
  \<^verbatim>\<open>
  async parse(text) {
      const cleanedText = this.normalizeText(text);
      if (this.llmEnabled && this.apiKey) {
          try {
              const llmResult = await this.parseWithLLM(cleanedText);
              if (llmResult && llmResult.items && llmResult.items.length > 0) {
                  return this.standardizeOutput(llmResult);
              }
          } catch (error) {
              console.warn('LLM parsing failed, falling back to regex:', error);
              showToast('Using offline parsing due to API error', 'warning');
          }
      }
      return this.parseWithRegex(cleanedText);
  }
  \<close>
  The external step is a parameter; it is given the number of the attempt, so that a
  second attempt could answer differently from the first.  \<open>parse\<close> returns its outcome
  together with the number of attempts it made.
\<close>

definition usable :: "LLMResult option outcome \<Rightarrow> bool" where
  "usable r =
     (case r of
        Throws \<Rightarrow> False
      | Returns None \<Rightarrow> False
      | Returns (Some d) \<Rightarrow> (case llm_items d of None \<Rightarrow> False | Some xs \<Rightarrow> 0 < length xs))"

definition parse ::
  "bool \<Rightarrow> jstring \<Rightarrow> (nat \<Rightarrow> jstring \<Rightarrow> LLMResult option outcome) \<Rightarrow> jstring
     \<Rightarrow> (error + StructuredRider) \<times> nat" where
  "parse llmEnabled apiKey parseWithLLM text =
     (if llmEnabled \<and> apiKey \<noteq> [] then
        (case parseWithLLM 1 (normalizeText text) of
           Returns (Some d) \<Rightarrow>
             if usable (Returns (Some d)) then (Inr (standardizeOutput d), 1)
             else (parseWithRegex (normalizeText text), 1)
         | _ \<Rightarrow> (parseWithRegex (normalizeText text), 1))
      else (parseWithRegex (normalizeText text), 0))"

section \<open>Flattening for the checklist\<close>

text \<open>
  \<^verbatim>\<open>
  flattenItems(data) {
      const items = [];
      let id = 0;
      if (data.rooms && data.rooms.length > 0) {
          data.rooms.forEach(room => {
              room.items.forEach(item => {
                  items.push({ id: `item_${id++}`, ...item,
                      roomId: room.id, roomName: room.name || `Room ${room.id}` });
              });
          });
      }
      if (data.categories) {
          Object.entries(data.categories).forEach(([category, categoryItems]) => {
              categoryItems.forEach(item => {
                  const exists = items.some(i =>
                      i.name === item.name && i.category === category &&
                      i.room === item.room);
                  if (!exists) {
                      items.push({ id: `item_${id++}`, ...item, category: category });
                  }
              });
          });
      }
      if (data.items) {
          data.items.forEach(item => {
              const exists = items.some(i =>
                  i.name === item.name && i.category === item.category);
              if (!exists) { items.push({ id: `item_${id++}`, ...item }); }
          });
      }
      return items;
  }
  \<close>
  An entry of the flattened view: the number in its id (the count of entries pushed
  before it), the fields copied from the item, and the room fields the first pass adds.
  The rooms, the buckets and the flat list are arrays of item objects and every room has
  its \<open>items\<close> array, as \<open>parseWithRegex\<close> builds them and as the schema of the
  external result has them (\<open>forEach\<close> on anything else raises).  The three fields
  that are compared may hold any value.
\<close>

record FlatItem =
  flat_id :: nat
  entry :: Item
  roomId :: "jstring option"
  roomName :: "jstring option"

definition from_room :: "Room \<Rightarrow> FlatItem list \<Rightarrow> Item \<Rightarrow> FlatItem list" where
  "from_room r acc it =
     acc @ [\<lparr>flat_id = length acc, entry = it, roomId = Some (room_id r),
             roomName = Some (if room_name r \<noteq> [] then room_name r
                              else js ''Room '' @ room_id r)\<rparr>]"

definition from_category :: "jstring \<Rightarrow> FlatItem list \<Rightarrow> Item \<Rightarrow> FlatItem list" where
  "from_category cat acc it =
     (if list_ex (\<lambda>i. name (entry i) = name it \<and> category (entry i) = Str cat
                        \<and> room (entry i) = room it) acc
      then acc
      else acc @ [\<lparr>flat_id = length acc, entry = it\<lparr>category := Str cat\<rparr>,
                   roomId = None, roomName = None\<rparr>])"

definition from_items :: "FlatItem list \<Rightarrow> Item \<Rightarrow> FlatItem list" where
  "from_items acc it =
     (if list_ex (\<lambda>i. name (entry i) = name it \<and> category (entry i) = category it) acc
      then acc
      else acc @ [\<lparr>flat_id = length acc, entry = it, roomId = None, roomName = None\<rparr>])"

definition flatten_rooms :: "Room list \<Rightarrow> FlatItem list" where
  "flatten_rooms rs = foldl (\<lambda>acc r. foldl (from_room r) acc (room_items r)) [] rs"

definition flatten_categories :: "(jstring \<times> Item list) list \<Rightarrow> FlatItem list \<Rightarrow> FlatItem list" where
  "flatten_categories cats acc0 =
     foldl (\<lambda>acc (cat, categoryItems). foldl (from_category cat) acc categoryItems) acc0 cats"

definition flattenItems :: "StructuredRider \<Rightarrow> FlatItem list" where
  "flattenItems d =
     foldl from_items (flatten_categories (categories d) (flatten_rooms (rooms d))) (items d)"

text \<open>
  The two notions of "the same item" that the later passes use: name, category and room
  in the pass over the categories, name and category in the pass over the flat items.
\<close>

definition key3 :: "FlatItem \<Rightarrow> jsval \<times> jsval \<times> jsval" where
  "key3 i = (name (entry i), category (entry i), room (entry i))"

definition key2 :: "FlatItem \<Rightarrow> jsval \<times> jsval" where
  "key2 i = (name (entry i), category (entry i))"

text \<open>
  \<open>extends R xs\<close>: the view \<open>xs\<close> is the entries \<open>R\<close> of the room pass followed by entries
  that differ from one another, and from those of \<open>R\<close>, in name, category or room.
\<close>

definition extends :: "FlatItem list \<Rightarrow> FlatItem list \<Rightarrow> bool" where
  "extends R xs =
     (\<exists>T. xs = R @ T \<and> distinct (map key3 T) \<and> key3 ` set T \<inter> key3 ` set R = {})"




text \<open>
  Two texts to run the extractors on: a room marker line followed by an item line, and a
  contact line followed by a line with one e-mail address (or with two).
\<close>

definition marker_text :: jstring where
  "marker_text = js ''Dressing Room 2 - Headliner'' @ [10] @ js ''Red Bull''"

definition room_2 :: Room where
  "room_2 = \<lparr>room_id = js ''2'', room_name = js ''Room 2'', description = js ''Headliner'',
             room_items = []\<rparr>"

definition contact_text :: jstring where
  "contact_text = js ''Contact: John Smith'' @ [10] @ js ''john@example.com''"

definition two_email_text :: jstring where
  "two_email_text = js ''Contact: John Smith'' @ [10] @ js ''a@b.co c@d.co''"

text \<open>
  A rider as the external source can deliver it: the item of the room has \<open>room: null\<close>,
  its copy in the category bucket has no \<open>room\<close> key.
\<close>

definition split_item :: Item where
  "split_item =
     \<lparr>name = Str (js ''Water''), quantity = 1, unit = js ''bottle'', brand = None,
      room = Null, category = Str (js ''Beverages''), item_notes = [], mustHave = False\<rparr>"

definition split_rider :: StructuredRider where
  "split_rider =
     \<lparr>artists = [],
      rooms = [\<lparr>room_id = js ''1'', room_name = js ''Room 1'', description = [],
                room_items = [split_item]\<rparr>],
      categories = [(js ''Beverages'', [split_item\<lparr>room := Undefined\<rparr>])],
      items = [split_item],
      allergies = [], contacts = [], specialRequirements = []\<rparr>"

section \<open>What the whitespace step of the normaliser computes\<close>

text \<open>
  Replacing every match of \<^verbatim>\<open>/\s+/g\<close> by one space, written as a recursion on the
  text: a maximal run of white space, line breaks included, becomes one space.  It is shown
  below to be what \<open>replace re_spaces\<close> computes.
\<close>

function collapse_spaces :: "jstring \<Rightarrow> jstring" where
  "collapse_spaces [] = []"
| "collapse_spaces (c # s) =
     (if isspace c then 32 # collapse_spaces (dropWhile isspace s) else c # collapse_spaces s)"
  by pat_completeness auto
termination
  by (relation "measure length") (auto simp: length_dropWhile_le less_Suc_eq_le)

section \<open>The matcher moves forward\<close>

text \<open>
  Every matcher \<open>rx ic r\<close> is forward.  So the test of \<open>repeatMatcher\<close>, that an
  iteration leaves less input, is ECMAScript's test that the iteration did not end where
  it began.
\<close>

lemma forwardD:
  "forward m \<Longrightarrow> (p', s', cs') \<in> set (m p s cs) \<Longrightarrow>
     p \<le> p' \<and> p' \<le> p + length s \<and> s' = drop (p' - p) s"
  unfolding forward_def by blast

lemma forward_step:
  assumes "p \<le> p'" "p' \<le> p + length s" "s' = drop (p' - p) s"
    and "p' \<le> q" "q \<le> p' + length s'" "t = drop (q - p') s'"
  shows "p \<le> q \<and> q \<le> p + length s \<and> t = drop (q - p) s"
  using assms by auto

lemma repeatMatcher_forward_aux:
  "forward m \<Longrightarrow> (q, t, ct) \<in> set (repeatMatcher m mn mx greedy gs p s cs) \<Longrightarrow>
     p \<le> q \<and> q \<le> p + length s \<and> t = drop (q - p) s"
proof (induction m mn mx greedy gs p s cs arbitrary: q t ct rule: repeatMatcher.induct)
  case (1 m mn mx greedy gs p s cs)
  note unf = "1.prems"(2) [unfolded repeatMatcher.simps [of m mn mx greedy gs p s cs]]
  from unf "1.prems"(1) "1.IH"
  consider (stop) "q = p" "t = s"
    | (iter) a aa b where "(a, aa, b) \<in> set (m p s (clear_caps gs cs))"
        "a \<le> q \<and> q \<le> a + length aa \<and> t = drop (q - a) aa"
    by (auto split: if_splits)
  then show ?case
  proof cases
    case stop
    then show ?thesis by simp
  next
    case iter
    from forwardD [OF "1.prems"(1) iter(1)] iter(2) show ?thesis
      by (intro forward_step [of p a s aa q t]) auto
  qed
qed

lemma repeatMatcher_forward: "forward m \<Longrightarrow> forward (repeatMatcher m mn mx greedy gs)"
  unfolding forward_def [of "repeatMatcher m mn mx greedy gs"]
  using repeatMatcher_forward_aux by blast

lemma rx_forward: "forward (rx ic r)"
proof (induction r)
  case (Cls neg rs)
  show ?case by (auto simp: forward_def split: list.splits if_splits)
next
  case Eps
  show ?case by (simp add: forward_def)
next
  case (Seq a b)
  show ?case
    unfolding forward_def
  proof (intro allI ballI, clarify)
    fix p s cs q t ct
    assume "(q, t, ct) \<in> set (rx ic (Seq a b) p s cs)"
    then obtain p' s' cs' where
      1: "(p', s', cs') \<in> set (rx ic a p s cs)" and 2: "(q, t, ct) \<in> set (rx ic b p' s' cs')"
      by auto
    from forwardD [OF Seq(1) 1] forwardD [OF Seq(2) 2]
    show "p \<le> q \<and> q \<le> p + length s \<and> t = drop (q - p) s"
      by (intro forward_step [of p p' s s' q t]) auto
  qed
next
  case (Alt a b)
  then show ?case by (auto simp: forward_def) blast+
next
  case (Rep mn mx greedy a)
  from repeatMatcher_forward [OF Rep] show ?case by (simp add: forward_def)
next
  case (Grp i a)
  then show ?case by (auto simp: forward_def) blast+
next
  case Bol
  show ?case by (simp add: forward_def)
next
  case Eol
  show ?case by (simp add: forward_def)
qed

lemma consumes_nothing:
  assumes "(p', s', cs') \<in> set (rx ic r p s cs)"
  shows "(length s' < length s) = (p' \<noteq> p)"
  using forwardD [OF rx_forward assms] by auto

section \<open>Exceptions of the deterministic path\<close>

text \<open>
  The loops over the artist, room and allergy patterns and the contact scan call
  \<open>matchAll\<close> with patterns that have the \<open>g\<close> flag: they return.
\<close>

lemma parseArtists_loop_returns:
  "\<forall>pt \<in> set pts. global pt \<Longrightarrow> \<exists>r. parseArtists_loop pts text found = Inr r"
  by (induction pts arbitrary: found) (auto simp: matchAll_def)

lemma parseRooms_loop_returns:
  "\<forall>pt \<in> set pts. global pt \<Longrightarrow> \<exists>r. parseRooms_loop pts text st = Inr r"
  by (induction pts arbitrary: st) (auto simp: matchAll_def)

lemma parseAllergies_loop_returns:
  "\<forall>pt \<in> set pts. global pt \<Longrightarrow> \<exists>r. parseAllergies_loop pts text found = Inr r"
  by (induction pts arbitrary: found) (auto simp: matchAll_def)

lemma parseArtists_returns: "\<exists>r. parseArtists text = Inr r"
  unfolding parseArtists_def
  by (rule parseArtists_loop_returns) (simp add: PATTERNS_artist_def re_def)

lemma parseRooms_returns: "\<exists>r. parseRooms text = Inr r"
  unfolding parseRooms_def
  by (rule parseRooms_loop_returns) (simp add: PATTERNS_room_def re_def)

lemma parseAllergies_returns: "\<exists>r. parseAllergies text = Inr r"
  unfolding parseAllergies_def
  by (rule parseAllergies_loop_returns) (simp add: PATTERNS_allergy_def re_def)

lemma parseContacts_returns: "\<exists>r. parseContacts text = Inr r"
  by (simp add: parseContacts_def matchAll_def PATTERNS_contact_name_def re_def)

text \<open>
  \<open>parseSpecialRequirements\<close> calls \<open>matchAll\<close> with \<open>PATTERNS.special.temperature\<close>, which
  has the flag \<open>i\<close> only: the call throws before any text is read.
\<close>

lemma parseSpecialRequirements_throws: "parseSpecialRequirements text = Inl TypeError"
  by (simp add: parseSpecialRequirements_def matchAll_def PATTERNS_special_temperature_def
      re_def)

text \<open>
  C1.  The claim is that \<open>parseWithRegex\<close> returns, without throwing, a record with seven
  empty collections on a text in which nothing matches, such as the empty string.  The
  code does not: on every text, the empty one included, \<open>parseWithRegex\<close> ends with the
  TypeError that \<open>parseSpecialRequirements\<close> raises.
\<close>

theorem parseWithRegex_throws: "parseWithRegex text = Inl TypeError"
proof -
  obtain a where a: "parseArtists text = Inr a"
    using parseArtists_returns by blast
  obtain r where r: "parseRooms text = Inr r"
    using parseRooms_returns by blast
  obtain c where c: "parseContacts text = Inr c"
    using parseContacts_returns by blast
  obtain al where al: "parseAllergies text = Inr al"
    using parseAllergies_returns by blast
  show ?thesis
    by (simp add: parseWithRegex_def a r c al parseSpecialRequirements_throws)
qed

theorem parseWithRegex_throws_on_empty: "parseWithRegex [] = Inl TypeError"
  using parseWithRegex_throws [of "[]"] by simp

section \<open>Running the parser on concrete lines\<close>

text \<open>
  The equation of \<open>repeatMatcher\<close> is used only where the input is a concrete list, so
  that evaluation follows the calls the matcher makes.
\<close>

lemmas repeatMatcher_eval =
  repeatMatcher.simps [where s = "[]"] repeatMatcher.simps [where s = "x # xs" for x xs]

lemmas regex_defs =
  re_def s_plus_def s_star_def d_plus_def not_nl_def colon_ws_def name_chars_def
  room_id_re_def chr_def lit_def seqs_def opt_def star_def plus_def plus_lazy_def digit_def
  AZ_def az_def one_def ws_def pl_def cat_re_def sep_re_def not_nl_dot_def d12_def
  word_chars_def match_at_def cls_member_def in_ranges_def clear_caps_def upper_def
  lower_def str_match_def at_def re_test_def replace_def grp_def matchAll_def
  repeatMatcher_eval

lemmas string_defs =
  js_def isspace_def trim_def truthy_def str_of_def js_or_def toLowerCase_def
  toUpperCase_def substring_def

lemmas item_defs =
  parseItem_def PATTERNS_item_def cleanItemName_def re_bullets_def re_spaces_def
  minItemLength_def parseQuantity_def parseInt_def isdigit_def decimal_def detectUnit_def
  units_def detectBrand_def brands_def PATTERNS_special_mustHave_def QUANTITY_MAP_def

lemma captures_both_quantities:
  "str_match PATTERNS_item (js ''2 (3) Red Bull'') =
     Some [Some (js ''2 (3) Red Bull''), Some (js ''2''), Some (js ''3''),
           Some (js ''Red Bull''), None]"
  by (simp add: PATTERNS_item_def regex_defs string_defs)

lemma item_both_quantities:
  "parseItem (js ''2 (3) Red Bull'') cat rm =
     Some \<lparr>name = Str (js ''Red Bull''), quantity = 2, unit = js ''item'',
           brand = Some (js ''Red Bull''), room = rm, category = Str cat, item_notes = [],
           mustHave = False\<rparr>"
  by (simp add: item_defs regex_defs string_defs)

lemma item_red_bull_cans:
  "parseItem (js ''(3) Red Bull cans'') cat rm =
     Some \<lparr>name = Str (js ''Red Bull cans''), quantity = 3, unit = js ''can'',
           brand = Some (js ''Red Bull''), room = rm, category = Str cat, item_notes = [],
           mustHave = False\<rparr>"
  by (simp add: item_defs regex_defs string_defs)

lemma item_fiji_water:
  "parseItem (js ''two bottles of Fiji water'') cat rm =
     Some \<lparr>name = Str (js ''bottles of Fiji water''), quantity = 2, unit = js ''bottle'',
           brand = Some (js ''Fiji''), room = rm, category = Str cat, item_notes = [],
           mustHave = False\<rparr>"
  by (simp add: item_defs regex_defs string_defs)

lemma item_some:
  "parseItem (js ''some'') cat rm =
     Some \<lparr>name = Str (js ''some''), quantity = 1, unit = js ''item'', brand = None,
           room = rm, category = Str cat, item_notes = [], mustHave = False\<rparr>"
  by (simp add: item_defs regex_defs string_defs)

lemma item_some_towels:
  "parseItem (js ''some towels'') cat rm =
     Some \<lparr>name = Str (js ''some towels''), quantity = 1, unit = js ''item'', brand = None,
           room = rm, category = Str cat, item_notes = [], mustHave = False\<rparr>"
  by (simp add: item_defs regex_defs string_defs)

section \<open>Quantity resolution\<close>

text \<open>
  C5, as stated: the parenthetical capture takes precedence over the leading one.  It does
  not.  On the line \<open>2 (3) Red Bull\<close> the item pattern captures the leading quantity \<open>2\<close>
  (group 1) and the parenthetical quantity \<open>3\<close> (group 2), and the item built has
  quantity 2.
\<close>

theorem quantity_precedence_counterexample:
  "str_match PATTERNS_item (js ''2 (3) Red Bull'') =
     Some [Some (js ''2 (3) Red Bull''), Some (js ''2''), Some (js ''3''),
           Some (js ''Red Bull''), None]
   \<and> map_option quantity (parseItem (js ''2 (3) Red Bull'') (js ''General'') Null) = Some 2"
  by (simp add: captures_both_quantities item_both_quantities)

text \<open>
  C5, amended: for every line that the item builder turns into an item, the quantity is
  resolved from the leading numeric or written capture (group 1) if present, else from the
  parenthetical capture (group 2), else it is 1.
\<close>

theorem quantity_precedence:
  assumes "parseItem line cat rm = Some it"
  shows "\<exists>m. str_match PATTERNS_item line = Some m
           \<and> quantity it =
               (if truthy (at m 1) then parseQuantity (at m 1)
                else if truthy (at m 2) then parseQuantity (at m 2)
                else 1)"
proof (cases "str_match PATTERNS_item line")
  case None
  with assms show ?thesis by (simp add: parseItem_def)
next
  case (Some m)
  with assms have q: "quantity it = parseQuantity (js_or (at m 1) (at m 2))"
    by (auto simp: parseItem_def split: if_splits)
  have "parseQuantity (js_or (at m 1) (at m 2)) =
          (if truthy (at m 1) then parseQuantity (at m 1)
           else if truthy (at m 2) then parseQuantity (at m 2)
           else 1)"
    by (simp add: js_or_def parseQuantity_def)
  with q Some show ?thesis by simp
qed

theorem quantity_precedence_witness:
  "parseItem (js ''(3) Red Bull cans'') (js ''General'') Null =
     Some \<lparr>name = Str (js ''Red Bull cans''), quantity = 3, unit = js ''can'',
           brand = Some (js ''Red Bull''), room = Null, category = Str (js ''General''),
           item_notes = [], mustHave = False\<rparr>
   \<and> (\<exists>m. str_match PATTERNS_item (js ''(3) Red Bull cans'') = Some m
          \<and> (3::nat) =
              (if truthy (at m 1) then parseQuantity (at m 1)
               else if truthy (at m 2) then parseQuantity (at m 2)
               else 1))"
  using quantity_precedence [OF item_red_bull_cans [of "js ''General''" Null]]
    item_red_bull_cans [of "js ''General''" Null]
  by simp

section \<open>The examples of the item builder\<close>

text \<open>
  C6, as stated, has the line \<open>two bottles of Fiji water\<close> built with no brand.  The
  brand list of \<open>detectBrand\<close> holds \<open>Fiji\<close>, and the item's brand is \<open>Fiji\<close>.
\<close>

theorem item_examples_counterexample:
  "map_option brand (parseItem (js ''two bottles of Fiji water'') (js ''General'') Null) =
     Some (Some (js ''Fiji''))"
  by (simp add: item_fiji_water)

text \<open>
  C6, amended: \<open>(3) Red Bull cans\<close> gives name \<open>Red Bull cans\<close>, quantity 3 and unit
  \<open>can\<close>; \<open>two bottles of Fiji water\<close> gives quantity 2, unit \<open>bottle\<close> and brand
  \<open>Fiji\<close>; \<open>some towels\<close>, whose first word is no quantity the pattern knows, gives
  quantity 1, and so does the line \<open>some\<close> alone.  Category and room are whatever the
  classifier passes.
\<close>

theorem item_examples:
  "map_option (\<lambda>i. (name i, quantity i, unit i)) (parseItem (js ''(3) Red Bull cans'') cat rm) =
     Some (Str (js ''Red Bull cans''), 3, js ''can'')
   \<and> map_option (\<lambda>i. (quantity i, unit i, brand i))
        (parseItem (js ''two bottles of Fiji water'') cat rm) =
     Some (2, js ''bottle'', Some (js ''Fiji''))
   \<and> map_option quantity (parseItem (js ''some towels'') cat rm) = Some 1
   \<and> map_option quantity (parseItem (js ''some'') cat rm) = Some 1"
  by (simp add: item_red_bull_cans item_fiji_water item_some_towels item_some)

theorem item_examples_witness:
  "map_option (\<lambda>i. (name i, quantity i, unit i))
       (parseItem (js ''(3) Red Bull cans'') (js ''General'') Null) =
     Some (Str (js ''Red Bull cans''), 3, js ''can'')
   \<and> map_option (\<lambda>i. (quantity i, unit i, brand i))
        (parseItem (js ''two bottles of Fiji water'') (js ''General'') Null) =
     Some (2, js ''bottle'', Some (js ''Fiji''))
   \<and> map_option quantity (parseItem (js ''some towels'') (js ''General'') Null) = Some 1
   \<and> map_option quantity (parseItem (js ''some'') (js ''General'') Null) = Some 1"
  by (rule item_examples [of "js ''General''" Null])

section \<open>Falling back from the external extraction\<close>

text \<open>
  C2.  The claim is that, when the external step is absent, throws or returns an empty
  item collection, \<open>parse\<close> still returns a result, the one of the deterministic path,
  and that the failure is never fatal to the parse.  The code does fall back, after one
  attempt at most and whatever a further attempt would have answered, but the path it
  falls back to is \<open>parseWithRegex\<close>, which ends with the TypeError of
  \<open>parseSpecialRequirements\<close>: in each of these cases \<open>parse\<close> returns no result and
  ends with that TypeError.
\<close>

theorem parse_fallback_throws:
  assumes "\<not> (llmEnabled \<and> apiKey \<noteq> [])
           \<or> parseWithLLM 1 (normalizeText text) = Throws
           \<or> (\<exists>d. parseWithLLM 1 (normalizeText text) = Returns (Some d)
                  \<and> llm_items d = Some [])"
  shows "fst (parse llmEnabled apiKey parseWithLLM text) = Inl TypeError
         \<and> snd (parse llmEnabled apiKey parseWithLLM text) =
             (if llmEnabled \<and> apiKey \<noteq> [] then 1 else 0)"
proof -
  obtain a where a: "parseArtists (normalizeText text) = Inr a"
    using parseArtists_returns by blast
  obtain r where r: "parseRooms (normalizeText text) = Inr r"
    using parseRooms_returns by blast
  obtain c where c: "parseContacts (normalizeText text) = Inr c"
    using parseContacts_returns by blast
  obtain al where al: "parseAllergies (normalizeText text) = Inr al"
    using parseAllergies_returns by blast
  have det: "parseWithRegex (normalizeText text) = Inl TypeError"
    by (simp add: parseWithRegex_def a r c al parseSpecialRequirements_throws)
  from assms show ?thesis
    by (auto simp: parse_def usable_def det split: outcome.splits option.splits)
qed

theorem parse_fallback_throws_witness:
  "fst (parse True (js ''key'') (\<lambda>n t. Throws) []) = Inl TypeError
   \<and> snd (parse True (js ''key'') (\<lambda>n t. Throws) []) = 1"
  using parse_fallback_throws [of True "js ''key''" "\<lambda>n t. Throws" "[]"]
  by (simp add: js_def)

section \<open>Deduplication in the flattened view\<close>

lemma foldl_invariant:
  "P a \<Longrightarrow> (\<And>acc x. P acc \<Longrightarrow> P (f acc x)) \<Longrightarrow> P (foldl f a xs)"
  by (induction xs arbitrary: a) auto

lemma list_ex_key3:
  "list_ex (\<lambda>i. name (entry i) = n \<and> category (entry i) = c \<and> room (entry i) = r) acc
     = ((n, c, r) \<in> key3 ` set acc)"
  by (auto simp: list_ex_iff key3_def image_iff)

lemma list_ex_key2:
  "list_ex (\<lambda>i. name (entry i) = n \<and> category (entry i) = c) acc
     = ((n, c) \<in> key2 ` set acc)"
  by (auto simp: list_ex_iff key2_def image_iff)

lemma extends_from_category: "extends R acc \<Longrightarrow> extends R (from_category cat acc it)"
  unfolding extends_def from_category_def list_ex_key3
  apply (auto simp: key3_def)
  done

lemma extends_from_items: "extends R acc \<Longrightarrow> extends R (from_items acc it)"
  unfolding extends_def from_items_def list_ex_key2
  apply (auto simp: key3_def key2_def image_iff)
  done


lemma extends_refl: "extends R R"
  by (simp add: extends_def)

lemma extends_flatten_categories:
  "extends R acc \<Longrightarrow> extends R (flatten_categories cats acc)"
  unfolding flatten_categories_def
  by (rule foldl_invariant) (auto intro: foldl_invariant extends_from_category)

lemma extends_flattenItems: "extends (flatten_rooms (rooms d)) (flattenItems d)"
  unfolding flattenItems_def
  by (rule foldl_invariant)
     (auto intro: extends_flatten_categories extends_refl extends_from_items)




















text \<open>
  The comparison of rooms is \<open>===\<close>: a room item with \<open>room: null\<close> and a copy of it in
  a category bucket without a \<open>room\<close> key are two items, and both are entered.
\<close>

lemma flatten_null_undefined:
  "flattenItems split_rider =
     [\<lparr>flat_id = 0, entry = split_item, roomId = Some (js ''1''),
       roomName = Some (js ''Room 1'')\<rparr>,
      \<lparr>flat_id = 1, entry = split_item\<lparr>room := Undefined\<rparr>, roomId = None,
       roomName = None\<rparr>]"
  by (simp add: flattenItems_def flatten_rooms_def flatten_categories_def from_room_def
      from_category_def from_items_def split_rider_def split_item_def js_def)



section \<open>The normaliser\<close>

lemma star_class_head:
  "\<exists>rest. repeatMatcher (rx ic (Cls neg rs)) 0 None True [] p s cs =
      (p + length (takeWhile (\<lambda>c. cls_member ic rs c \<noteq> neg) s),
       dropWhile (\<lambda>c. cls_member ic rs c \<noteq> neg) s, cs) # rest"
proof (induction s arbitrary: p)
  case Nil
  show ?case by (subst repeatMatcher.simps) (simp add: clear_caps_def)
next
  case (Cons c s)
  show ?case
  proof (cases "cls_member ic rs c \<noteq> neg")
    case True
    from Cons [of "Suc p"] obtain rest where
      "repeatMatcher (rx ic (Cls neg rs)) 0 None True [] (Suc p) s cs =
         (Suc p + length (takeWhile (\<lambda>c. cls_member ic rs c \<noteq> neg) s),
          dropWhile (\<lambda>c. cls_member ic rs c \<noteq> neg) s, cs) # rest" by blast
    with True show ?thesis
      by (subst repeatMatcher.simps) (simp add: clear_caps_def)
  next
    case False
    then show ?thesis
      by (subst repeatMatcher.simps) (simp add: clear_caps_def)
  qed
qed

lemma isspace_member: "cls_member False ws = isspace"
  by (rule ext) (simp add: cls_member_def isspace_def)

lemma match_at_spaces:
  "match_at re_spaces p s =
     (case s of
        [] \<Rightarrow> None
      | c # s' \<Rightarrow> if isspace c
                 then Some \<lparr>index = p, matched = takeWhile isspace s, caps = [None]\<rparr>
                 else None)"
proof (cases s)
  case Nil
  then show ?thesis
    by (simp add: match_at_def re_spaces_def) (subst repeatMatcher.simps, simp add: clear_caps_def)
next
  case (Cons c s')
  show ?thesis
  proof (cases "isspace c")
    case True
    from star_class_head [of False False ws "Suc p" s' "[None]"] obtain rest where
      r: "repeatMatcher (rx False (Cls False ws)) 0 None True [] (Suc p) s' [None] =
         (Suc p + length (takeWhile isspace s'), dropWhile isspace s', [None]) # rest"
      by (auto simp: isspace_member)
    have t: "take (length (takeWhile isspace s')) s' = takeWhile isspace s'"
      by (rule takeWhile_eq_take [symmetric])
    from True Cons r t show ?thesis
      by (simp add: match_at_def re_spaces_def)
         (subst repeatMatcher.simps, simp add: clear_caps_def isspace_member)
  next
    case False
    with Cons show ?thesis
      by (simp add: match_at_def re_spaces_def)
         (subst repeatMatcher.simps, simp add: clear_caps_def isspace_member)
  qed
qed


lemma replace_from_spaces: "replace_from re_spaces [32] p s = collapse_spaces s"
proof (induction s arbitrary: p rule: collapse_spaces.induct)
  case 1
  show ?case by (simp add: match_at_spaces)
next
  case (2 c s)
  show ?case
  proof (cases "isspace c")
    case True
    have d: "drop (length (takeWhile isspace s)) s = dropWhile isspace s"
      by (rule dropWhile_eq_drop [symmetric])
    from True 2(1) [OF True] d show ?thesis
      by (simp add: match_at_spaces)
  next
    case False
    with 2(2) [OF False] show ?thesis
      by (simp add: match_at_spaces)
  qed
qed

lemma normalize_globals:
  "global re_crlf" "global re_cr" "global re_tab" "global re_spaces" "global re_blank_lines"
  by (simp_all add: re_crlf_def re_cr_def re_tab_def re_spaces_def re_blank_lines_def)

lemma replace_spaces: "replace re_spaces [32] s = collapse_spaces s"
  by (simp add: replace_def replace_from_spaces normalize_globals)

lemma replace_from_no_match:
  assumes "\<And>p s. s = [] \<or> hd s \<noteq> c0 \<Longrightarrow> match_at pt p s = None"
  shows "c0 \<notin> set s \<Longrightarrow> replace_from pt rep p s = s"
  by (induction s arbitrary: p) (simp_all add: assms)

lemma no_match_crlf: "s = [] \<or> hd s \<noteq> 13 \<Longrightarrow> match_at re_crlf p s = None"
  by (cases s) (auto simp: match_at_def re_crlf_def cls_member_def in_ranges_def)

lemma no_match_cr: "s = [] \<or> hd s \<noteq> 13 \<Longrightarrow> match_at re_cr p s = None"
  by (cases s) (auto simp: match_at_def re_cr_def cls_member_def in_ranges_def)

lemma no_match_tab: "s = [] \<or> hd s \<noteq> 9 \<Longrightarrow> match_at re_tab p s = None"
  by (cases s) (auto simp: match_at_def re_tab_def cls_member_def in_ranges_def)

lemma no_match_blank_lines: "s = [] \<or> hd s \<noteq> 10 \<Longrightarrow> match_at re_blank_lines p s = None"
  by (cases s)
     (auto simp: match_at_def re_blank_lines_def cls_member_def in_ranges_def clear_caps_def
        repeatMatcher.simps [of _ 3])

lemma replace_crlf_id: "13 \<notin> set s \<Longrightarrow> replace re_crlf rep s = s"
  using replace_from_no_match [of 13 re_crlf s rep 0] no_match_crlf
  by (simp add: replace_def normalize_globals)

lemma replace_cr_id: "13 \<notin> set s \<Longrightarrow> replace re_cr rep s = s"
  using replace_from_no_match [of 13 re_cr s rep 0] no_match_cr
  by (simp add: replace_def normalize_globals)

lemma replace_tab_id: "9 \<notin> set s \<Longrightarrow> replace re_tab rep s = s"
  using replace_from_no_match [of 9 re_tab s rep 0] no_match_tab
  by (simp add: replace_def normalize_globals)

lemma replace_blank_lines_id: "10 \<notin> set s \<Longrightarrow> replace re_blank_lines rep s = s"
  using replace_from_no_match [of 10 re_blank_lines s rep 0] no_match_blank_lines
  by (simp add: replace_def normalize_globals)

lemma collapse_spaces_only_sp: "c \<in> set (collapse_spaces s) \<Longrightarrow> isspace c \<Longrightarrow> c = 32"
  by (induction s rule: collapse_spaces.induct) (auto split: if_splits)

lemma isspace_controls: "isspace 9" "isspace 10" "isspace 13"
  by (simp_all add: isspace_def ws_def in_ranges_def)

lemma collapse_spaces_free: "9 \<notin> set (collapse_spaces s)" "10 \<notin> set (collapse_spaces s)"
  "13 \<notin> set (collapse_spaces s)"
  using collapse_spaces_only_sp isspace_controls by fastforce+

lemma collapse_spaces_head:
  "s = [] \<or> \<not> isspace (hd s) \<Longrightarrow> dropWhile isspace (collapse_spaces s) = collapse_spaces s"
  by (cases s) auto

lemma dropWhile_head: "dropWhile P s = [] \<or> \<not> P (hd (dropWhile P s))"
  by (metis hd_dropWhile)

lemma collapse_spaces_idem: "collapse_spaces (collapse_spaces s) = collapse_spaces s"
proof (induction s rule: collapse_spaces.induct)
  case 1
  show ?case by simp
next
  case (2 c s)
  show ?case
  proof (cases "isspace c")
    case True
    have sp: "isspace 32" by (simp add: isspace_def ws_def in_ranges_def)
    have "dropWhile isspace (collapse_spaces (dropWhile isspace s)) =
            collapse_spaces (dropWhile isspace s)"
      using dropWhile_head [of isspace s] by (rule collapse_spaces_head)
    with True 2(1) [OF True] sp show ?thesis by simp
  next
    case False
    with 2(2) [OF False] show ?thesis by simp
  qed
qed

lemma normalizeText_collapse:
  "normalizeText t =
     collapse_spaces (replace re_tab [32] (replace re_cr [10] (replace re_crlf [10] t)))"
  by (simp add: normalizeText_def replace_spaces replace_blank_lines_id collapse_spaces_free)

lemma normalizeText_no_line_feed: "10 \<notin> set (normalizeText t)"
  by (simp add: normalizeText_collapse collapse_spaces_free)

text \<open>
  C3.  The claim is that line breaks stay in place (runs of other white space become one
  space, three or more blank lines become one).  The fourth step, \<^verbatim>\<open>/\s+/g\<close>, matches
  line feeds as well: two lines come out as one line, and nothing is left for the fifth
  step, \<^verbatim>\<open>/\n{3,}/g\<close>, to match.
\<close>

theorem normalizeText_joins_lines:
  "normalizeText (js ''a'' @ [10] @ js ''b'') = js ''a b''
   \<and> normalizeText (js ''a'' @ [13, 10, 10, 10, 10] @ js ''b'') = js ''a b''"
  by (simp add: normalizeText_def re_crlf_def re_cr_def re_tab_def re_blank_lines_def
      re_spaces_def regex_defs string_defs)

text \<open>C9.  Normalising a normalised text changes nothing.\<close>

theorem normalizeText_idempotent: "normalizeText (normalizeText t) = normalizeText t"
proof -
  obtain v where v: "normalizeText t = collapse_spaces v"
    using normalizeText_collapse by blast
  have "normalizeText (collapse_spaces v) = collapse_spaces (collapse_spaces v)"
    by (simp add: normalizeText_collapse [of "collapse_spaces v"] replace_crlf_id replace_cr_id
        replace_tab_id collapse_spaces_free)
  with v show ?thesis by (simp add: collapse_spaces_idem)
qed

theorem normalizeText_idempotent_witness:
  "normalizeText (js ''a'' @ [9, 32, 10] @ js ''b'') = js ''a b''
   \<and> normalizeText (normalizeText (js ''a'' @ [9, 32, 10] @ js ''b''))
       = normalizeText (js ''a'' @ [9, 32, 10] @ js ''b'')"
proof -
  have "normalizeText (js ''a'' @ [9, 32, 10] @ js ''b'') = js ''a b''"
    by (simp add: normalizeText_def re_crlf_def re_cr_def re_tab_def re_blank_lines_def
        re_spaces_def regex_defs string_defs)
  with normalizeText_idempotent [of "js ''a'' @ [9, 32, 10] @ js ''b''"] show ?thesis
    by blast
qed

section \<open>The line classifier on a normalised text\<close>

lemma split_lines_single: "10 \<notin> set s \<Longrightarrow> split_lines s = [s]"
  by (induction s) auto

lemma item_line_adds_one: "length (ls_items (item_line l st)) \<le> Suc (length (ls_items st))"
  by (simp add: item_line_def Let_def split: option.splits)

lemma classify_line_adds_one:
  "length (ls_items (classify_line st l)) \<le> Suc (length (ls_items st))"
  using item_line_adds_one [of "trim l" st] by (simp add: classify_line_def)

text \<open>
  C10.  A normalised text holds no line feed, so it is one line for the classifier, and the
  classifier builds at most one item from it, whatever the rooms.
\<close>

theorem normalized_text_one_item:
  "10 \<notin> set (normalizeText t)
   \<and> split_lines (normalizeText t) = [normalizeText t]
   \<and> length (ls_items (parseItemsAndCategories (normalizeText t) rms)) \<le> 1"
  using classify_line_adds_one
    [of "\<lparr>currentCategory = js ''General'', currentRoom = None, ls_items = [],
          ls_categories = [], ls_rooms = rms\<rparr>" "normalizeText t"]
  by (simp add: parseItemsAndCategories_def split_lines_single normalizeText_no_line_feed)

theorem normalized_text_one_item_witness:
  "10 \<notin> set (normalizeText marker_text)
   \<and> split_lines (normalizeText marker_text) = [normalizeText marker_text]
   \<and> length (ls_items (parseItemsAndCategories (normalizeText marker_text) [room_2])) \<le> 1"
  by (rule normalized_text_one_item [of marker_text "[room_2]"])

section \<open>Room markers in the line classifier\<close>

lemma rooms_of_marker_text: "parseRooms marker_text = Inr [room_2]"
  by (simp add: marker_text_def room_2_def parseRooms_def PATTERNS_room_def add_room_def
      set_add_def cleanName_def re_spaces_def regex_defs string_defs)

lemma marker_match:
  "str_match (hd PATTERNS_room) (js ''Dressing Room 2 - Headliner'') =
     Some [Some (js ''Dressing Room 2 - Headliner'')]"
  by (simp add: PATTERNS_room_def regex_defs string_defs)

lemma marker_room_context: "detectRoomContext (js ''Dressing Room 2 - Headliner'') = None"
  by (simp add: detectRoomContext_def PATTERNS_room_def regex_defs string_defs)

lemma marker_category: "detectCategory (js ''Dressing Room 2 - Headliner'') = None"
  by (simp add: detectCategory_def PATTERNS_category_def CATEGORY_KEYWORDS_def re_header_def
      maxCategoryLength_def regex_defs string_defs)

lemma red_bull_category: "detectCategory (js ''Red Bull'') = None"
  by (simp add: detectCategory_def PATTERNS_category_def CATEGORY_KEYWORDS_def re_header_def
      maxCategoryLength_def regex_defs string_defs)

lemma red_bull_room_context: "detectRoomContext (js ''Red Bull'') = None"
  by (simp add: detectRoomContext_def PATTERNS_room_def regex_defs string_defs)

lemma item_marker:
  "parseItem (js ''Dressing Room 2 - Headliner'') cat rm =
     Some \<lparr>name = Str (js ''Dressing Room 2''), quantity = 1, unit = js ''item'', brand = None,
           room = rm, category = Str cat, item_notes = js ''Headliner'', mustHave = False\<rparr>"
  by (simp add: item_defs regex_defs string_defs)

lemma item_red_bull:
  "parseItem (js ''Red Bull'') cat rm =
     Some \<lparr>name = Str (js ''Red Bull''), quantity = 1, unit = js ''item'',
           brand = Some (js ''Red Bull''), room = rm, category = Str cat, item_notes = [],
           mustHave = False\<rparr>"
  by (simp add: item_defs regex_defs string_defs)

lemma marker_lines:
  "split_lines marker_text = [js ''Dressing Room 2 - Headliner'', js ''Red Bull'']"
  by (simp add: marker_text_def js_def)

lemma marker_trim:
  "trim (js ''Dressing Room 2 - Headliner'') = js ''Dressing Room 2 - Headliner''"
  "trim (js ''Red Bull'') = js ''Red Bull''"
  "js ''Dressing Room 2 - Headliner'' \<noteq> []" "js ''Red Bull'' \<noteq> []"
  by (simp_all add: string_defs in_ranges_def ws_def)

text \<open>
  C4.  The claim is that the line \<open>Dressing Room 2 - Headliner\<close> sets the running room to
  \<open>2\<close> and that the items of the following lines are appended to that room.  On the text
  of that line followed by the line \<open>Red Bull\<close>, with the room that \<open>parseRooms\<close> finds
  in it: the first room pattern matches the marker line, but it has the \<open>g\<close> flag, so
  \<open>match\<close> gives the array of the matched texts, which has one element, and \<open>match[1]\<close>
  is \<open>undefined\<close>.  The running room stays \<open>null\<close>, both items are built with room
  \<open>null\<close>, and room 2 receives no item.
\<close>

theorem room_marker_not_tracked:
  "parseRooms marker_text = Inr [room_2]
   \<and> str_match (hd PATTERNS_room) (js ''Dressing Room 2 - Headliner'') =
       Some [Some (js ''Dressing Room 2 - Headliner'')]
   \<and> detectRoomContext (js ''Dressing Room 2 - Headliner'') = None
   \<and> parseItemsAndCategories marker_text [room_2] =
       \<lparr>currentCategory = js ''General'', currentRoom = None,
        ls_items =
          [\<lparr>name = Str (js ''Dressing Room 2''), quantity = 1, unit = js ''item'', brand = None,
            room = Null, category = Str (js ''General''), item_notes = js ''Headliner'',
            mustHave = False\<rparr>,
           \<lparr>name = Str (js ''Red Bull''), quantity = 1, unit = js ''item'',
            brand = Some (js ''Red Bull''), room = Null, category = Str (js ''General''),
            item_notes = [], mustHave = False\<rparr>],
        ls_categories =
          [(js ''General'',
            [\<lparr>name = Str (js ''Dressing Room 2''), quantity = 1, unit = js ''item'', brand = None,
              room = Null, category = Str (js ''General''), item_notes = js ''Headliner'',
              mustHave = False\<rparr>,
             \<lparr>name = Str (js ''Red Bull''), quantity = 1, unit = js ''item'',
              brand = Some (js ''Red Bull''), room = Null, category = Str (js ''General''),
              item_notes = [], mustHave = False\<rparr>])],
        ls_rooms = [room_2]\<rparr>"
  by (simp add: rooms_of_marker_text marker_match marker_room_context
      parseItemsAndCategories_def marker_lines classify_line_def marker_trim
      marker_category red_bull_category item_line_def red_bull_room_context item_marker
      item_red_bull truthy_def room_value_def push_category_def ensure_category_def)

section \<open>The e-mail address of a contact\<close>

lemmas contact_defs =
  parseContacts_def PATTERNS_contact_name_def PATTERNS_contact_email_def
  PATTERNS_contact_phone_def make_contact_def nearbyText_def cleanName_def cleanPhone_def
  re_not_phone_def re_spaces_def

lemma one_email_window:
  "str_match PATTERNS_contact_email (nearbyText contact_text 0) =
     Some [Some (js ''john@example.com'')]"
  by (simp add: contact_text_def contact_defs regex_defs string_defs)

lemma one_email_contacts:
  "parseContacts contact_text =
     Inr [\<lparr>contact_name = js ''John Smith'', role = js ''Contact'', email = None,
           phone = None\<rparr>]"
  by (simp add: contact_text_def contact_defs regex_defs string_defs)

lemma two_email_contacts:
  "parseContacts two_email_text =
     Inr [\<lparr>contact_name = js ''John Smith'', role = js ''Contact'',
           email = Some (js ''c@d.co''), phone = None\<rparr>]"
  by (simp add: two_email_text_def contact_defs regex_defs string_defs)

text \<open>
  C7.  The claim is that the first e-mail address found in the window around a contact
  name is attached to the contact, so that a window with exactly one address gives that
  address.  The window of the contact in \<open>contact_text\<close> is the whole text and holds one
  address; the e-mail pattern has the \<open>g\<close> flag, \<open>match\<close> gives the array of the matched
  texts, and the contact gets \<open>emailMatch[1]\<close>: nothing when there is one address, the
  second address when there are two.
\<close>

theorem contact_email_not_attached:
  "nearbyText contact_text 0 = contact_text
   \<and> str_match PATTERNS_contact_email (nearbyText contact_text 0) =
       Some [Some (js ''john@example.com'')]
   \<and> parseContacts contact_text =
       Inr [\<lparr>contact_name = js ''John Smith'', role = js ''Contact'', email = None,
             phone = None\<rparr>]
   \<and> parseContacts two_email_text =
       Inr [\<lparr>contact_name = js ''John Smith'', role = js ''Contact'',
             email = Some (js ''c@d.co''), phone = None\<rparr>]"
  by (simp add: one_email_window one_email_contacts two_email_contacts)
     (simp add: nearbyText_def substring_def contact_text_def js_def)

end
